theory Spec2Isabelle
  imports Main "HOL-Library.Word"
begin

section \<open>The qtree-pooled NAS driver (ontap NAS economy driver)\<close>

text \<open>
  A shallow embedding of the Go driver \<^verbatim>\<open>NASQtreeStorageDriver\<close>.  Strings are byte lists,
  \<^verbatim>\<open>uint64\<close> and \<^verbatim>\<open>int64\<close> are 64-bit words, a Go \<^verbatim>\<open>error\<close> is its message
  (\<open>None\<close> is \<^verbatim>\<open>nil\<close>).  The appliance client, the host's mount helpers and the
  random generators are parameters (record \<open>appliance\<close>); every call the driver makes to them
  is appended to a trace, together with the log lines of level Error and Warn (Debug lines and
  method tracing are left out).
\<close>

subsection \<open>Go library functions\<close>

type_synonym error = string

text \<open>\<^verbatim>\<open>s[n:]\<close>; \<open>None\<close> is the run-time panic "slice bounds out of range".\<close>

definition sliceFrom :: "string \<Rightarrow> nat \<Rightarrow> string option" where
  "sliceFrom s n = (if n \<le> length s then Some (drop n s) else None)"

text \<open>\<^verbatim>\<open>strconv.FormatUint(n, 10)\<close> and \<^verbatim>\<open>strconv.FormatInt(i, 10)\<close>.\<close>

fun FormatUint :: "nat \<Rightarrow> string" where
  "FormatUint n =
     (if n < 10 then [''0123456789'' ! n]
      else FormatUint (n div 10) @ [''0123456789'' ! (n mod 10)])"

declare FormatUint.simps [simp del]

definition FormatInt :: "int \<Rightarrow> string" where
  "FormatInt i = (if i < 0 then CHR ''-'' # FormatUint (nat (- i)) else FormatUint (nat i))"

definition FormatBool :: "bool \<Rightarrow> string" where
  "FormatBool b = (if b then ''true'' else ''false'')"

text \<open>
  \<^verbatim>\<open>strconv.ParseUint(s, 10, 64)\<close>: the empty string, a byte that is not a decimal digit and
  a value above \<open>2^64 - 1\<close> are errors (\<open>None\<close>).
\<close>

definition digitVal :: "char \<Rightarrow> nat option" where
  "digitVal c =
     (if (48::nat) \<le> of_char c \<and> of_char c \<le> (57::nat) then Some (of_char c - 48) else None)"

fun parseDigits :: "nat \<Rightarrow> string \<Rightarrow> nat option" where
  "parseDigits n [] = Some n"
| "parseDigits n (c # cs) =
     (case digitVal c of
        None \<Rightarrow> None
      | Some d \<Rightarrow> (if n * 10 + d < 2 ^ 64 then parseDigits (n * 10 + d) cs else None))"

definition ParseUint :: "string \<Rightarrow> nat option" where
  "ParseUint s = (if s = [] then None else parseDigits 0 s)"

text \<open>
  \<^verbatim>\<open>strconv.ParseInt(s, 10, 64)\<close>: an optional sign, then \<^verbatim>\<open>ParseUint\<close>; a value outside
  \<open>[-2^63, 2^63)\<close> is a range error.
\<close>

definition ParseInt :: "string \<Rightarrow> int option" where
  "ParseInt s =
     (case s of
        [] \<Rightarrow> None
      | c # cs \<Rightarrow>
          (let neg = (c = CHR ''-'');
               body = (if c = CHR ''+'' \<or> c = CHR ''-'' then cs else s)
           in case ParseUint body of
                None \<Rightarrow> None
              | Some un \<Rightarrow>
                  if \<not> neg \<and> 2 ^ 63 \<le> un then None
                  else if neg \<and> 2 ^ 63 < un then None
                  else Some (if neg then - int un else int un)))"

text \<open>\<^verbatim>\<open>strconv.ParseBool\<close>.\<close>

definition ParseBool :: "string \<Rightarrow> bool option" where
  "ParseBool s =
     (if s \<in> set [''1'', ''t'', ''T'', ''TRUE'', ''true'', ''True''] then Some True
      else if s \<in> set [''0'', ''f'', ''F'', ''FALSE'', ''false'', ''False''] then Some False
      else None)"

definition ParseBoolError :: "string \<Rightarrow> error" where
  "ParseBoolError s =
     ''strconv.ParseBool: parsing '' @ [CHR 0x22] @ s @ [CHR 0x22] @ '': invalid syntax''"

subsection \<open>Constants of the driver\<close>

definition deletedQtreeNamePrefix :: string where
  "deletedQtreeNamePrefix = ''deleted_''"

definition maxQtreeNameLength :: nat where
  "maxQtreeNameLength = 64"

definition maxQtreesPerFlexvol :: int where
  "maxQtreesPerFlexvol = 200"

subsection \<open>The driver, the appliance and the world\<close>

text \<open>The fields of \<^verbatim>\<open>NASQtreeStorageDriver\<close> and of its \<^verbatim>\<open>Config\<close> that the driver reads.\<close>

record driver =
  StoragePrefix :: string
  Aggregate :: string
  SpaceReserve :: string
  SnapshotPolicy :: string
  SnapshotDir :: string
  Encryption :: string
  UnixPermissions :: string
  ExportPolicy :: string
  SecurityStyle :: string
  DataLIF :: string
  flexvolNamePrefix :: string
  flexvolExportPolicy :: string

text \<open>
  What an appliance call hands back: the pair (response, err) of the Go client.  Either the
  transport failed (\<^verbatim>\<open>err != nil\<close>), or the response's status is not "passed" (with its
  error code and rendered message), or it passed and carries a payload.
\<close>

datatype 'a reply = TransportError error | ZapiFailed string error | ZapiPassed 'a

text \<open>
  Modelled from the spec: \<^verbatim>\<open>api.GetError(response, err)\<close> of the appliance client, which is
  not among the sources.  Section 6.2: all operations return appliance result + transport
  error; "passed" is a success predicate over the appliance result.
\<close>

fun GetError :: "'a reply \<Rightarrow> error option" where
  "GetError (TransportError e) = Some e"
| "GetError (ZapiFailed code msg) = Some msg"
| "GetError (ZapiPassed r) = None"

text \<open>\<^verbatim>\<open>response.Result.AttributesList()\<close>: empty unless the call passed.\<close>

fun AttributesList :: "'a list reply \<Rightarrow> 'a list" where
  "AttributesList (ZapiPassed xs) = xs"
| "AttributesList (ZapiFailed code msg) = []"
| "AttributesList (TransportError e) = []"

datatype loglevel = Error | Warn

datatype event =
    EvQtreeExists string string
  | EvVolumeListByAttrs string string string string bool "bool option"
  | EvQtreeCount string
  | EvVolumeCreate string string string string string string string string "bool option"
  | EvVolumeDisableSnapshotDirectoryAccess string
  | EvVolumeMount string string
  | EvVolumeDestroy string bool
  | EvUpdateLoadSharingMirrors
  | EvQuotaSetEntry string string string string string
  | EvQuotaStatus string
  | EvQuotaOff string
  | EvQuotaOn string
  | EvQuotaResize string
  | EvVolumeGet string
  | EvQuotaEntryList string
  | EvSetVolumeSize string string
  | EvQtreeCreate string string string string string
  | EvQtreeRename string string
  | EvQtreeDestroyAsync string bool
  | EvQtreeList string string
  | EvUnmountVolume string
  | EvSleep nat
  | EvLog loglevel string

text \<open>
  The collaborators of the driver, none of which is among the sources.  An appliance call
  answers as a function of its arguments; \<open>QuotaStatus\<close> also takes the number of status
  reads made so far, so that the status may change between two polls.  \<open>qtrees\<close> is the
  appliance's table of (Flexvol, qtree) names.  \<open>scaleBySnapReserve x pct\<close> stands for
  \<^verbatim>\<open>uint64(float64(x) * (1.0 + float64(pct)/100.0))\<close>, whose float64 rounding is not
  modelled.  \<open>randomByte k i\<close> is byte \<open>i\<close> of the \<open>k\<close>-th random string drawn, \<open>randIntn n\<close>
  the draw of \<^verbatim>\<open>rand.Intn(n)\<close> before reduction, \<open>rangeOrder m\<close> the order in which Go's
  \<^verbatim>\<open>range\<close> visits the keys of the map \<open>m\<close>.
\<close>

record appliance =
  QtreeExists :: "string \<Rightarrow> string \<Rightarrow> bool \<times> string \<times> error option"
  VolumeListByAttrs ::
    "string \<Rightarrow> string \<Rightarrow> string \<Rightarrow> string \<Rightarrow> bool \<Rightarrow> bool option \<Rightarrow> string list reply"
  QtreeCount :: "string \<Rightarrow> error + int"
  VolumeCreate ::
    "string \<Rightarrow> string \<Rightarrow> string \<Rightarrow> string \<Rightarrow> string \<Rightarrow> string \<Rightarrow> string \<Rightarrow> string \<Rightarrow> bool option
      \<Rightarrow> unit reply"
  VolumeDisableSnapshotDirectoryAccess :: "string \<Rightarrow> unit reply"
  VolumeMount :: "string \<Rightarrow> string \<Rightarrow> unit reply"
  QuotaSetEntry :: "string \<Rightarrow> string \<Rightarrow> string \<Rightarrow> string \<Rightarrow> string \<Rightarrow> unit reply"
  QuotaStatus :: "string \<Rightarrow> nat \<Rightarrow> string reply"
  QuotaOff :: "string \<Rightarrow> unit reply"
  QuotaOn :: "string \<Rightarrow> unit reply"
  QuotaResize :: "string \<Rightarrow> unit reply"
  VolumeGet :: "string \<Rightarrow> error + int"
  QuotaEntryList :: "string \<Rightarrow> string list reply"
  SetVolumeSize :: "string \<Rightarrow> string \<Rightarrow> unit reply"
  QtreeCreate :: "string \<Rightarrow> string \<Rightarrow> string \<Rightarrow> string \<Rightarrow> string \<Rightarrow> unit reply"
  QtreeRename :: "string \<Rightarrow> string \<Rightarrow> unit reply"
  QtreeDestroyAsync :: "string \<Rightarrow> bool \<Rightarrow> unit reply"
  QtreeListOutcome :: "unit reply"
  qtrees :: "(string \<times> string) list"
  UnmountVolume :: "string \<Rightarrow> driver \<Rightarrow> error option"
  ValidateEncryptionAttribute :: "string \<Rightarrow> error + bool option"
  MinimumVolumeSizeBytes :: "64 word"
  EVOLUMEDOESNOTEXIST :: string
  scaleBySnapReserve :: "64 word \<Rightarrow> int \<Rightarrow> 64 word"
  randomByte :: "nat \<Rightarrow> nat \<Rightarrow> nat"
  randIntn :: "nat \<Rightarrow> nat"
  rangeOrder :: "(string \<rightharpoonup> bool) \<Rightarrow> string list"

text \<open>
  The mutable state: the driver's \<^verbatim>\<open>quotaResizeMap\<close>, the trace of calls and log lines, the
  number of quota status reads and of random strings drawn so far.
\<close>

record world =
  quotaResizeMap :: "string \<rightharpoonup> bool"
  trace :: "event list"
  polls :: nat
  draws :: nat

definition emit :: "event \<Rightarrow> world \<Rightarrow> world" where
  "emit e w = w\<lparr>trace := trace w @ [e]\<rparr>"

text \<open>
  Modelled from the spec: \<^verbatim>\<open>utils.RandomString(n)\<close>, which is not among the sources, returns
  \<open>n\<close> random alphanumerics (section 4.B).
\<close>

definition alphanumerics :: string where
  "alphanumerics = ''abcdefghijklmnopqrstuvwxyzABCDEFGHIJKLMNOPQRSTUVWXYZ0123456789''"

definition RandomString :: "appliance \<Rightarrow> nat \<Rightarrow> nat \<Rightarrow> string" where
  "RandomString env k n = map (\<lambda>i. alphanumerics ! (randomByte env k i mod 62)) [0..<n]"

text \<open>
  Modelled from the spec: \<^verbatim>\<open>utils.GetV(opts, key, default)\<close>, which is not among the sources.
  Section 4.F: unspecified keys fall back to driver defaults.
\<close>

definition GetV :: "(string \<rightharpoonup> string) \<Rightarrow> string \<Rightarrow> string \<Rightarrow> string" where
  "GetV opts key defaultValue = (case opts key of Some v \<Rightarrow> v | None \<Rightarrow> defaultValue)"

text \<open>
  Modelled from the spec: \<^verbatim>\<open>QtreeList(namePrefix, flexvolPrefix)\<close> of the appliance client,
  which is not among the sources.  Sections 4.F and 6.2: it enumerates all qtrees whose names
  begin with the name prefix under the Flexvols whose names begin with the Flexvol prefix.
  The payload is the list of (Flexvol, qtree) names.
\<close>

definition QtreeList :: "appliance \<Rightarrow> string \<Rightarrow> string \<Rightarrow> (string \<times> string) list reply" where
  "QtreeList env namePrefix flexvolPrefix =
     (case QtreeListOutcome env of
        TransportError e \<Rightarrow> TransportError e
      | ZapiFailed code msg \<Rightarrow> ZapiFailed code msg
      | ZapiPassed u \<Rightarrow>
          ZapiPassed (filter (\<lambda>(volume, qtree).
                        take (length flexvolPrefix) volume = flexvolPrefix \<and>
                        take (length namePrefix) qtree = namePrefix) (qtrees env)))"

subsection \<open>Quota engine\<close>

text \<open>\<^verbatim>\<open>getQuotaStatus\<close> returns the status of the quotas on a Flexvol.\<close>

definition getQuotaStatus :: "appliance \<Rightarrow> string \<Rightarrow> world \<Rightarrow> (error + string) \<times> world" where
  "getQuotaStatus env flexvol w =
     (let statusResponse = QuotaStatus env flexvol (polls w);
          w1 = emit (EvQuotaStatus flexvol) (w\<lparr>polls := polls w + 1\<rparr>)
      in case statusResponse of
           ZapiPassed status \<Rightarrow> (Inr status, w1)
         | _ \<Rightarrow>
             (Inl (''error getting quota status for Flexvol '' @ flexvol @ '': ''
                   @ the (GetError statusResponse)), w1))"

text \<open>
  The wait loops of \<^verbatim>\<open>disableQuotas\<close> and \<^verbatim>\<open>enableQuotas\<close>.  They have no bound in the
  source; \<open>fuel\<close> bounds the number of iterations here, and \<open>None\<close> says that the loop was
  still running when the fuel ran out.
\<close>

fun waitQuotasOff ::
  "nat \<Rightarrow> appliance \<Rightarrow> string \<Rightarrow> string \<Rightarrow> world \<Rightarrow> (error option \<times> world) option" where
  "waitQuotasOff 0 env flexvol status w = (if status \<noteq> ''off'' then None else Some (None, w))"
| "waitQuotasOff (Suc fuel) env flexvol status w =
     (if status \<noteq> ''off'' then
        (case getQuotaStatus env flexvol (emit (EvSleep 1) w) of
           (Inl err, w1) \<Rightarrow> Some (Some (''error disabling quotas: '' @ err), w1)
         | (Inr status1, w1) \<Rightarrow>
             if status1 = ''corrupt'' then
               Some (Some (''error disabling quotas: quotas are corrupt on flexvol '' @ flexvol), w1)
             else waitQuotasOff fuel env flexvol status1 w1)
      else Some (None, w))"

fun waitQuotasOn ::
  "nat \<Rightarrow> appliance \<Rightarrow> string \<Rightarrow> string \<Rightarrow> world \<Rightarrow> (error option \<times> world) option" where
  "waitQuotasOn 0 env flexvol status w = (if status \<noteq> ''on'' then None else Some (None, w))"
| "waitQuotasOn (Suc fuel) env flexvol status w =
     (if status \<noteq> ''on'' then
        (case getQuotaStatus env flexvol (emit (EvSleep 1) w) of
           (Inl err, w1) \<Rightarrow> Some (Some (''error enabling quotas: '' @ err), w1)
         | (Inr status1, w1) \<Rightarrow>
             if status1 = ''corrupt'' then
               Some (Some (''error enabling quotas: quotas are corrupt on flexvol '' @ flexvol), w1)
             else waitQuotasOn fuel env flexvol status1 w1)
      else Some (None, w))"

text \<open>\<^verbatim>\<open>disableQuotas\<close> disables quotas on a Flexvol, optionally waiting for the operation to finish.\<close>

definition disableQuotas ::
  "nat \<Rightarrow> appliance \<Rightarrow> string \<Rightarrow> bool \<Rightarrow> world \<Rightarrow> (error option \<times> world) option" where
  "disableQuotas fuel env flexvol wait w =
     (case getQuotaStatus env flexvol w of
        (Inl err, w1) \<Rightarrow> Some (Some (''error disabling quotas: '' @ err), w1)
      | (Inr status, w1) \<Rightarrow>
          if status = ''corrupt'' then
            Some (Some (''error disabling quotas: quotas are corrupt on Flexvol '' @ flexvol), w1)
          else
            (case (if status \<noteq> ''off''
                   then (GetError (QuotaOff env flexvol), emit (EvQuotaOff flexvol) w1)
                   else (None, w1)) of
               (Some err, w2) \<Rightarrow> Some (Some (''error disabling quotas: '' @ err), w2)
             | (None, w2) \<Rightarrow>
                 if wait then waitQuotasOff fuel env flexvol status w2 else Some (None, w2)))"

text \<open>\<^verbatim>\<open>enableQuotas\<close> enables quotas on a Flexvol, optionally waiting for the operation to finish.\<close>

definition enableQuotas ::
  "nat \<Rightarrow> appliance \<Rightarrow> string \<Rightarrow> bool \<Rightarrow> world \<Rightarrow> (error option \<times> world) option" where
  "enableQuotas fuel env flexvol wait w =
     (case getQuotaStatus env flexvol w of
        (Inl err, w1) \<Rightarrow> Some (Some (''error enabling quotas: '' @ err), w1)
      | (Inr status, w1) \<Rightarrow>
          if status = ''corrupt'' then
            Some (Some (''error enabling quotas: quotas are corrupt on flexvol '' @ flexvol), w1)
          else
            (case (if status = ''off''
                   then (GetError (QuotaOn env flexvol), emit (EvQuotaOn flexvol) w1)
                   else (None, w1)) of
               (Some err, w2) \<Rightarrow> Some (Some (''error enabling quotas: '' @ err), w2)
             | (None, w2) \<Rightarrow>
                 if wait then waitQuotasOn fuel env flexvol status w2 else Some (None, w2)))"

text \<open>
  \<^verbatim>\<open>addDefaultQuotaForFlexvol\<close> adds a default quota rule to a Flexvol.  The values returned by
  \<^verbatim>\<open>d.disableQuotas(flexvol, true)\<close> and \<^verbatim>\<open>d.enableQuotas(flexvol, true)\<close> are dropped by
  the source; the \<^verbatim>\<open>if err != nil\<close> after each of them reads the variable \<open>err\<close> that
  \<^verbatim>\<open>api.GetError\<close> set before.
\<close>

definition addDefaultQuotaForFlexvol ::
  "nat \<Rightarrow> appliance \<Rightarrow> string \<Rightarrow> world \<Rightarrow> (error option \<times> world) option" where
  "addDefaultQuotaForFlexvol fuel env flexvol w =
     (let response = QuotaSetEntry env '''' flexvol '''' ''tree'' ''-'';
          w1 = emit (EvQuotaSetEntry '''' flexvol '''' ''tree'' ''-'') w;
          err = GetError response
      in case err of
           Some e \<Rightarrow> Some (Some (''error adding default quota: '' @ e), w1)
         | None \<Rightarrow>
             (case disableQuotas fuel env flexvol True w1 of
                None \<Rightarrow> None
              | Some (dropped, w2) \<Rightarrow>
                  (case err of
                     Some e \<Rightarrow> Some (Some (''error adding default quota: '' @ e), w2)
                   | None \<Rightarrow>
                       (case enableQuotas fuel env flexvol True w2 of
                          None \<Rightarrow> None
                        | Some (dropped1, w3) \<Rightarrow>
                            (case err of
                               Some e \<Rightarrow> Some (Some (''error adding default quota: '' @ e), w3)
                             | None \<Rightarrow> Some (None, w3))))))"

text \<open>\<^verbatim>\<open>addQuotaForQtree\<close> adds a tree quota to a Flexvol/qtree with a hard disk size limit.\<close>

definition addQuotaForQtree ::
  "appliance \<Rightarrow> string \<Rightarrow> string \<Rightarrow> 64 word \<Rightarrow> world \<Rightarrow> error option \<times> world" where
  "addQuotaForQtree env qtree flexvol sizeBytes w =
     (let target = ''/vol/'' @ flexvol @ ''/'' @ qtree;
          sizeKB = FormatUint (unat (sizeBytes div 1024));
          response = QuotaSetEntry env '''' flexvol target ''tree'' sizeKB;
          w1 = emit (EvQuotaSetEntry '''' flexvol target ''tree'' sizeKB) w
      in case GetError response of
           Some err \<Rightarrow> (Some (''error adding qtree quota: '' @ err), w1)
         | None \<Rightarrow> (None, w1\<lparr>quotaResizeMap := (quotaResizeMap w1)(flexvol \<mapsto> True)\<rparr>))"

text \<open>
  \<^verbatim>\<open>resizeQuotas\<close>: one iteration of the loop over \<^verbatim>\<open>quotaResizeMap\<close>, and the sweep.  The
  function returns nothing in the source.
\<close>

definition resizeQuotasStep :: "appliance \<Rightarrow> string \<Rightarrow> world \<Rightarrow> world" where
  "resizeQuotasStep env flexvol w =
     (if quotaResizeMap w flexvol = Some True then
        (let resizeResponse = QuotaResize env flexvol;
             w1 = emit (EvQuotaResize flexvol) w
         in case resizeResponse of
              TransportError err \<Rightarrow> w1
            | ZapiFailed code msg \<Rightarrow>
                if code = EVOLUMEDOESNOTEXIST env
                then w1\<lparr>quotaResizeMap := (quotaResizeMap w1)(flexvol := None)\<rparr>
                else w1
            | ZapiPassed u \<Rightarrow> w1\<lparr>quotaResizeMap := (quotaResizeMap w1)(flexvol := None)\<rparr>)
      else w)"

definition resizeQuotas :: "appliance \<Rightarrow> world \<Rightarrow> world" where
  "resizeQuotas env w = fold (resizeQuotasStep env) (rangeOrder env (quotaResizeMap w)) w"

subsection \<open>Pool selector and Flexvol factory\<close>

text \<open>
  \<^verbatim>\<open>getFlexvolForQtree\<close>: the loop that weeds out the Flexvols already having too many
  qtrees, and the pick.  A pair (name, error) is the Go result \<^verbatim>\<open>(string, error)\<close>.
\<close>

fun weedOutFlexvols ::
  "appliance \<Rightarrow> string list \<Rightarrow> string list \<Rightarrow> world \<Rightarrow> (error + string list) \<times> world" where
  "weedOutFlexvols env [] volumes w = (Inr volumes, w)"
| "weedOutFlexvols env (volName # rest) volumes w =
     (case QtreeCount env volName of
        Inl err \<Rightarrow> (Inl (''error enumerating qtrees: '' @ err), emit (EvQtreeCount volName) w)
      | Inr count \<Rightarrow>
          weedOutFlexvols env rest
            (if count < maxQtreesPerFlexvol then volumes @ [volName] else volumes)
            (emit (EvQtreeCount volName) w))"

definition getFlexvolForQtree ::
  "appliance \<Rightarrow> driver \<Rightarrow> string \<Rightarrow> string \<Rightarrow> string \<Rightarrow> bool \<Rightarrow> bool option \<Rightarrow> world
    \<Rightarrow> (string \<times> error option) \<times> world" where
  "getFlexvolForQtree env d aggregate spaceReserve snapshotPolicy enableSnapshotDir encrypt w =
     (let volListResponse =
            VolumeListByAttrs env (flexvolNamePrefix d) aggregate spaceReserve snapshotPolicy
              enableSnapshotDir encrypt;
          w1 = emit (EvVolumeListByAttrs (flexvolNamePrefix d) aggregate spaceReserve snapshotPolicy
                       enableSnapshotDir encrypt) w
      in case GetError volListResponse of
           Some err \<Rightarrow> (('''', Some (''error enumerating Flexvols: '' @ err)), w1)
         | None \<Rightarrow>
             (case weedOutFlexvols env (AttributesList volListResponse) [] w1 of
                (Inl err, w2) \<Rightarrow> (('''', Some err), w2)
              | (Inr volumes, w2) \<Rightarrow>
                  if length volumes = 0 then (('''', None), w2)
                  else if length volumes = 1 then ((volumes ! 0, None), w2)
                  else ((volumes ! (randIntn env (length volumes) mod length volumes), None), w2)))"

text \<open>
  \<^verbatim>\<open>createFlexvolForQtree\<close> creates a new Flexvol; a deferred \<^verbatim>\<open>VolumeDestroy\<close> runs when
  the function returns, after the error value is built.
\<close>

definition createFlexvolForQtree ::
  "nat \<Rightarrow> appliance \<Rightarrow> driver \<Rightarrow> string \<Rightarrow> string \<Rightarrow> string \<Rightarrow> bool \<Rightarrow> bool option \<Rightarrow> world
    \<Rightarrow> ((string \<times> error option) \<times> world) option" where
  "createFlexvolForQtree fuel env d aggregate spaceReserve snapshotPolicy enableSnapshotDir encrypt w =
     (let flexvol = flexvolNamePrefix d @ RandomString env (draws w) 10;
          w0 = w\<lparr>draws := draws w + 1\<rparr>;
          size = ''1g'';
          unixPermissions = ''0700'';
          exportPolicy = flexvolExportPolicy d;
          securityStyle = ''unix'';
          createResponse =
            VolumeCreate env flexvol aggregate size spaceReserve snapshotPolicy
              unixPermissions exportPolicy securityStyle encrypt;
          w1 = emit (EvVolumeCreate flexvol aggregate size spaceReserve snapshotPolicy
                       unixPermissions exportPolicy securityStyle encrypt) w0
      in case GetError createResponse of
           Some err \<Rightarrow> Some (('''', Some (''error creating Flexvol: '' @ err)), w1)
         | None \<Rightarrow>
             (case (if \<not> enableSnapshotDir
                    then (GetError (VolumeDisableSnapshotDirectoryAccess env flexvol),
                          emit (EvVolumeDisableSnapshotDirectoryAccess flexvol) w1)
                    else (None, w1)) of
                (Some err, w2) \<Rightarrow>
                  Some (('''', Some (''error disabling snapshot directory access: '' @ err)),
                        emit (EvVolumeDestroy flexvol True) w2)
              | (None, w2) \<Rightarrow>
                  (let mountResponse = VolumeMount env flexvol (''/'' @ flexvol);
                       w3 = emit (EvVolumeMount flexvol (''/'' @ flexvol)) w2
                   in case GetError mountResponse of
                        Some err \<Rightarrow>
                          Some (('''', Some (''error mounting Flexvol: '' @ err)),
                                emit (EvVolumeDestroy flexvol True) w3)
                      | None \<Rightarrow>
                          (case addDefaultQuotaForFlexvol fuel env flexvol
                                  (emit EvUpdateLoadSharingMirrors w3) of
                             None \<Rightarrow> None
                           | Some (Some err, w4) \<Rightarrow>
                               Some (('''', Some (''error adding default quota to Flexvol: '' @ err)),
                                     emit (EvVolumeDestroy flexvol True) w4)
                           | Some (None, w4) \<Rightarrow> Some ((flexvol, None), w4)))))"

text \<open>
  \<^verbatim>\<open>ensureFlexvolForQtree\<close> either finds a Flexvol to contain a new qtree or creates one.
\<close>

definition ensureFlexvolForQtree ::
  "nat \<Rightarrow> appliance \<Rightarrow> driver \<Rightarrow> string \<Rightarrow> string \<Rightarrow> string \<Rightarrow> bool \<Rightarrow> bool option \<Rightarrow> world
    \<Rightarrow> ((string \<times> error option) \<times> world) option" where
  "ensureFlexvolForQtree fuel env d aggregate spaceReserve snapshotPolicy enableSnapshotDir encrypt w =
     (case getFlexvolForQtree env d aggregate spaceReserve snapshotPolicy enableSnapshotDir encrypt w of
        ((flexvol, Some err), w1) \<Rightarrow>
          Some (('''', Some (''error finding Flexvol for qtree: '' @ err)), w1)
      | ((flexvol, None), w1) \<Rightarrow>
          if flexvol \<noteq> '''' then Some ((flexvol, None), w1)
          else
            (case createFlexvolForQtree fuel env d aggregate spaceReserve snapshotPolicy
                    enableSnapshotDir encrypt w1 of
               None \<Rightarrow> None
             | Some ((flexvol1, Some err), w2) \<Rightarrow>
                 Some (('''', Some (''error creating Flexvol for qtree: '' @ err)), w2)
             | Some ((flexvol1, None), w2) \<Rightarrow> Some ((flexvol1, None), w2)))"

text \<open>
  \<^verbatim>\<open>getTotalHardDiskLimitQuota\<close> returns the sum of all disk limit quota rules on a Flexvol,
  \<^verbatim>\<open>getOptimalSizeForFlexvol\<close> adds the size of the new qtree and the snapshot reserve.
  \<open>VolumeGet\<close> answers with the percentage of the snapshot reserve.
\<close>

definition getTotalHardDiskLimitQuota ::
  "appliance \<Rightarrow> string \<Rightarrow> world \<Rightarrow> (error + 64 word) \<times> world" where
  "getTotalHardDiskLimitQuota env flexvol w =
     (let listResponse = QuotaEntryList env flexvol;
          w1 = emit (EvQuotaEntryList flexvol) w
      in case listResponse of
           TransportError err \<Rightarrow> (Inl err, w1)
         | _ \<Rightarrow>
             (let totalDiskLimitKB =
                    fold (\<lambda>diskLimit total.
                            case ParseUint diskLimit of
                              None \<Rightarrow> total
                            | Some diskLimitKB \<Rightarrow> total + of_nat diskLimitKB)
                         (AttributesList listResponse) (0 :: 64 word)
              in (Inr (totalDiskLimitKB * 1024), w1)))"

definition getOptimalSizeForFlexvol ::
  "appliance \<Rightarrow> string \<Rightarrow> 64 word \<Rightarrow> world \<Rightarrow> (error + 64 word) \<times> world" where
  "getOptimalSizeForFlexvol env flexvol newQtreeSizeBytes w =
     (case VolumeGet env flexvol of
        Inl err \<Rightarrow> (Inl err, emit (EvVolumeGet flexvol) w)
      | Inr percentageSnapshotReserve \<Rightarrow>
          (case getTotalHardDiskLimitQuota env flexvol (emit (EvVolumeGet flexvol) w) of
             (Inl err, w1) \<Rightarrow> (Inl err, w1)
           | (Inr totalDiskLimitBytes, w1) \<Rightarrow>
               (Inr (scaleBySnapReserve env (newQtreeSizeBytes + totalDiskLimitBytes)
                       percentageSnapshotReserve), w1)))"

subsection \<open>Provisioner\<close>

text \<open>
  \<^verbatim>\<open>Create\<close> creates a qtree-backed volume with the specified options.  The value returned by
  \<^verbatim>\<open>d.addQuotaForQtree(name, flexvol, sizeBytes)\<close> is dropped by the source; the
  \<^verbatim>\<open>if err != nil\<close> after it reads the variable \<open>err\<close> that \<^verbatim>\<open>api.GetError\<close> set
  after \<^verbatim>\<open>QtreeCreate\<close>.
\<close>

definition Create ::
  "nat \<Rightarrow> appliance \<Rightarrow> driver \<Rightarrow> string \<Rightarrow> 64 word \<Rightarrow> (string \<rightharpoonup> string) \<Rightarrow> world
    \<Rightarrow> (error option \<times> world) option" where
  "Create fuel env d name sizeBytes opts w =
     (let createError = ''volume creation failed'';
          (exists, existsInFlexvol, err0) = QtreeExists env name (flexvolNamePrefix d);
          w1 = emit (EvQtreeExists name (flexvolNamePrefix d)) w
      in case err0 of
           Some e \<Rightarrow>
             Some (Some createError,
                   emit (EvLog Error (''Error checking for existing volume: '' @ e @ ''.'')) w1)
         | None \<Rightarrow>
      if exists then Some (Some (''volume '' @ name @ '' already exists''), w1)
      else if sizeBytes < MinimumVolumeSizeBytes env then
        Some (Some (''requested volume size ('' @ FormatUint (unat sizeBytes)
                    @ '' bytes) is too small; the minimum volume size is ''
                    @ FormatUint (unat (MinimumVolumeSizeBytes env)) @ '' bytes''), w1)
      else if length name > maxQtreeNameLength then
        Some (Some (''volume '' @ name @ '' name exceeds the limit of ''
                    @ FormatUint maxQtreeNameLength @ '' characters''), w1)
      else
        (let size = FormatUint (unat sizeBytes);
             aggregate = GetV opts ''aggregate'' (Aggregate d);
             spaceReserve = GetV opts ''spaceReserve'' (SpaceReserve d);
             snapshotPolicy = GetV opts ''snapshotPolicy'' (SnapshotPolicy d);
             snapshotDir = GetV opts ''snapshotDir'' (SnapshotDir d);
             encryption = GetV opts ''encryption'' (Encryption d)
         in case ParseBool snapshotDir of
              None \<Rightarrow>
                Some (Some (''invalid boolean value for snapshotDir: ''
                            @ ParseBoolError snapshotDir), w1)
            | Some enableSnapshotDir \<Rightarrow>
         (case ValidateEncryptionAttribute env encryption of
            Inl e \<Rightarrow> Some (Some e, w1)
          | Inr encrypt \<Rightarrow>
         (case ensureFlexvolForQtree fuel env d aggregate spaceReserve snapshotPolicy
                 enableSnapshotDir encrypt w1 of
            None \<Rightarrow> None
          | Some ((flexvol0, Some e), w2) \<Rightarrow>
              Some (Some createError,
                    emit (EvLog Error (''Flexvol location/creation failed. '' @ e)) w2)
          | Some ((flexvol, None), w2) \<Rightarrow>
         (case (case getOptimalSizeForFlexvol env flexvol sizeBytes w2 of
                  (Inl e, w3) \<Rightarrow>
                    (GetError (SetVolumeSize env flexvol (''+'' @ size)),
                     emit (EvSetVolumeSize flexvol (''+'' @ size))
                       (emit (EvLog Warn (''Could not calculate optimal Flexvol size. '' @ e)) w3))
                | (Inr flexvolSizeBytes, w3) \<Rightarrow>
                    (let flexvolSizeStr = FormatUint (unat flexvolSizeBytes)
                     in (GetError (SetVolumeSize env flexvol flexvolSizeStr),
                         emit (EvSetVolumeSize flexvol flexvolSizeStr) w3))) of
            (Some e, w4) \<Rightarrow>
              Some (Some createError, emit (EvLog Error (''Flexvol resize failed. '' @ e)) w4)
          | (None, w4) \<Rightarrow>
         (let unixPermissions = GetV opts ''unixPermissions'' (UnixPermissions d);
              exportPolicy = GetV opts ''exportPolicy'' (ExportPolicy d);
              securityStyle = GetV opts ''securityStyle'' (SecurityStyle d);
              qtreeResponse = QtreeCreate env name flexvol unixPermissions exportPolicy securityStyle;
              w5 = emit (EvQtreeCreate name flexvol unixPermissions exportPolicy securityStyle) w4;
              err = GetError qtreeResponse
          in case err of
               Some e \<Rightarrow>
                 Some (Some createError, emit (EvLog Error (''Qtree creation failed. '' @ e)) w5)
             | None \<Rightarrow>
                 (case addQuotaForQtree env name flexvol sizeBytes w5 of
                    (dropped, w6) \<Rightarrow>
                      (case err of
                         Some e \<Rightarrow>
                           Some (Some createError,
                                 emit (EvLog Error (''Qtree quota definition failed. '' @ e)) w6)
                       | None \<Rightarrow> Some (None, w6)))))))))"

text \<open>
  The outcome of a function that may stop with a run-time panic (a slice out of range).
\<close>

datatype 'a outcome = Panic | Return 'a

text \<open>
  The renamed form that \<^verbatim>\<open>Destroy\<close> computes for a qtree (the assignments to
  \<^verbatim>\<open>deletedName\<close>); each call of \<^verbatim>\<open>utils.RandomString\<close> is a new draw.
\<close>

definition deletedNameFor :: "appliance \<Rightarrow> string \<Rightarrow> world \<Rightarrow> string outcome \<times> world" where
  "deletedNameFor env name w =
     (let deletedName = deletedQtreeNamePrefix @ name @ ''_'' @ RandomString env (draws w) 5;
          w1 = w\<lparr>draws := draws w + 1\<rparr>
      in if length deletedName > maxQtreeNameLength then
           (let trimLength = length deletedQtreeNamePrefix + 10
            in case sliceFrom name trimLength of
                 None \<Rightarrow> (Panic, w1)
               | Some trimmed \<Rightarrow>
                   (Return (deletedQtreeNamePrefix @ trimmed @ ''_'' @ RandomString env (draws w1) 5),
                    w1\<lparr>draws := draws w1 + 1\<rparr>))
         else (Return deletedName, w1))"

text \<open>\<^verbatim>\<open>Destroy\<close> destroys the volume.\<close>

definition Destroy :: "appliance \<Rightarrow> driver \<Rightarrow> string \<Rightarrow> world \<Rightarrow> error option outcome \<times> world" where
  "Destroy env d name w =
     (let deleteError = ''volume deletion failed'';
          (exists, flexvol, err) = QtreeExists env name (flexvolNamePrefix d);
          w1 = emit (EvQtreeExists name (flexvolNamePrefix d)) w
      in case err of
           Some e \<Rightarrow>
             (Return (Some deleteError),
              emit (EvLog Error (''Error checking for existing qtree. '' @ e)) w1)
         | None \<Rightarrow>
             if \<not> exists then (Return None, emit (EvLog Warn ''Qtree not found.'') w1)
             else
               (let path = ''/vol/'' @ flexvol @ ''/'' @ name
                in case deletedNameFor env name w1 of
                     (Panic, w2) \<Rightarrow> (Panic, w2)
                   | (Return deletedName, w2) \<Rightarrow>
                       (let deletedPath = ''/vol/'' @ flexvol @ ''/'' @ deletedName;
                            renameResponse = QtreeRename env path deletedPath;
                            w3 = emit (EvQtreeRename path deletedPath) w2
                        in case GetError renameResponse of
                             Some e \<Rightarrow>
                               (Return (Some deleteError),
                                emit (EvLog Error (''Qtree rename failed. '' @ e)) w3)
                           | None \<Rightarrow>
                               (let destroyResponse = QtreeDestroyAsync env deletedPath True;
                                    w4 = emit (EvQtreeDestroyAsync deletedPath True) w3
                                in case GetError destroyResponse of
                                     Some e \<Rightarrow>
                                       (Return (Some deleteError),
                                        emit (EvQtreeRename deletedPath path)
                                          (emit (EvLog Error (''Qtree async delete failed. '' @ e)) w4))
                                   | None \<Rightarrow> (Return None, w4)))))"

text \<open>\<^verbatim>\<open>Detach\<close> detaches the volume.\<close>

definition Detach :: "appliance \<Rightarrow> driver \<Rightarrow> string \<Rightarrow> string \<Rightarrow> world \<Rightarrow> error option \<times> world" where
  "Detach env d name mountpoint w =
     (let (exists, flexvol, err) = QtreeExists env name (flexvolNamePrefix d);
          w1 = emit (EvQtreeExists name (flexvolNamePrefix d)) w;
          w2 = (case err of
                  Some e \<Rightarrow> emit (EvLog Warn (''Error checking for existing qtree. '' @ e)) w1
                | None \<Rightarrow> w1);
          w3 = (if \<not> exists
                then emit (EvLog Warn ''Qtree not found, attempting unmount anyway.'') w2
                else w2)
      in (UnmountVolume env mountpoint d, emit (EvUnmountVolume mountpoint) w3))"

text \<open>
  \<^verbatim>\<open>List\<close> returns the list of volumes associated with this tenant: the loop that strips
  the storage prefix, and the function.  A pair (volumes, error) is the Go result.
\<close>

fun stripStoragePrefix :: "nat \<Rightarrow> (string \<times> string) list \<Rightarrow> string list \<Rightarrow> string list outcome" where
  "stripStoragePrefix n [] volumes = Return volumes"
| "stripStoragePrefix n ((volume, qtree) # rest) volumes =
     (case sliceFrom qtree n of
        None \<Rightarrow> Panic
      | Some vol \<Rightarrow> stripStoragePrefix n rest (volumes @ [vol]))"

definition List :: "appliance \<Rightarrow> driver \<Rightarrow> world \<Rightarrow> (string list \<times> error option) outcome \<times> world" where
  "List env d w =
     (let listError = ''volume list failed'';
          prefix = StoragePrefix d;
          volumes = [];
          listResponse = QtreeList env prefix (flexvolNamePrefix d);
          w1 = emit (EvQtreeList prefix (flexvolNamePrefix d)) w
      in case GetError listResponse of
           Some e \<Rightarrow>
             (Return (volumes, Some listError), emit (EvLog Error (''Qtree list failed. '' @ e)) w1)
         | None \<Rightarrow>
             (case stripStoragePrefix (length prefix) (AttributesList listResponse) volumes of
                Panic \<Rightarrow> (Panic, w1)
              | Return volumes1 \<Rightarrow> (Return (volumes1, None), w1)))"

subsection \<open>External representation of a volume\<close>

text \<open>
  The attributes that \<^verbatim>\<open>getVolumeExternal\<close> reads from the appliance's records, and the
  \<^verbatim>\<open>storage.VolumeConfig\<close> and \<^verbatim>\<open>storage.VolumeExternal\<close> it builds.  The constants
  \<^verbatim>\<open>trident.OrchestratorAPIVersion\<close>, \<^verbatim>\<open>trident.File\<close> and \<^verbatim>\<open>trident.ReadWriteMany\<close>
  belong to a package that is not among the sources: the first is a parameter, the others
  are constructors.
\<close>

record QtreeInfoType =
  qtreeQtree :: string
  qtreeVolume :: string
  qtreeExportPolicy :: string
  qtreeMode :: string

record VolumeAttributesType =
  volumeName :: string
  volumeContainingAggregateName :: string
  volumeSnapshotPolicy :: string
  volumeSnapdirAccessEnabled :: bool

record QuotaEntryType =
  quotaTarget :: string
  quotaDiskLimit :: string

datatype Protocol = File | Block | ProtocolAny

datatype AccessMode = ReadWriteOnce | ReadOnlyMany | ReadWriteMany | ModeAny

record VolumeConfig =
  cfgVersion :: string
  cfgName :: string
  cfgInternalName :: string
  cfgSize :: string
  cfgProtocol :: Protocol
  cfgSnapshotPolicy :: string
  cfgExportPolicy :: string
  cfgSnapshotDir :: string
  cfgUnixPermissions :: string
  cfgStorageClass :: string
  cfgAccessMode :: AccessMode
  cfgBlockSize :: string
  cfgFileSystem :: string

record VolumeExternal =
  Config :: VolumeConfig
  Pool :: string

text \<open>
  The variable \<open>size\<close> of \<^verbatim>\<open>getVolumeExternal\<close>: \<^verbatim>\<open>strconv.ParseInt\<close> of the disk limit,
  0 on error, otherwise multiplied by 1024 in \<^verbatim>\<open>int64\<close>.
\<close>

definition externalSize :: "string \<Rightarrow> 64 word" where
  "externalSize diskLimit =
     (case ParseInt diskLimit of
        None \<Rightarrow> 0
      | Some parsed \<Rightarrow> word_of_int parsed * 1024)"

definition getVolumeExternal ::
  "driver \<Rightarrow> string \<Rightarrow> QtreeInfoType \<Rightarrow> VolumeAttributesType \<Rightarrow> QuotaEntryType
    \<Rightarrow> VolumeExternal outcome" where
  "getVolumeExternal d orchestratorAPIVersion qtreeAttrs volumeAttrs quotaAttrs =
     (let internalName = qtreeQtree qtreeAttrs
      in case sliceFrom internalName (length (StoragePrefix d)) of
           None \<Rightarrow> Panic
         | Some name \<Rightarrow>
             (let size = externalSize (quotaDiskLimit quotaAttrs);
                  volumeConfig =
                    \<lparr> cfgVersion = orchestratorAPIVersion,
                      cfgName = name,
                      cfgInternalName = internalName,
                      cfgSize = FormatInt (sint size),
                      cfgProtocol = File,
                      cfgSnapshotPolicy = volumeSnapshotPolicy volumeAttrs,
                      cfgExportPolicy = qtreeExportPolicy qtreeAttrs,
                      cfgSnapshotDir = FormatBool (volumeSnapdirAccessEnabled volumeAttrs),
                      cfgUnixPermissions = qtreeMode qtreeAttrs,
                      cfgStorageClass = '''',
                      cfgAccessMode = ReadWriteMany,
                      cfgBlockSize = '''',
                      cfgFileSystem = '''' \<rparr>
              in Return \<lparr> Config = volumeConfig,
                          Pool = volumeContainingAggregateName volumeAttrs \<rparr>))"

section \<open>Concrete scenarios\<close>

text \<open>
  A driver configured for Kubernetes with the storage prefix \<^verbatim>\<open>trident_\<close>, and the records
  of a qtree \<^verbatim>\<open>trident_alpha\<close> on one of its Flexvols.
\<close>

definition demoDriver :: driver where
  "demoDriver =
     \<lparr> StoragePrefix = ''trident_'', Aggregate = ''aggr1'', SpaceReserve = ''none'',
       SnapshotPolicy = ''none'', SnapshotDir = ''false'', Encryption = ''false'',
       UnixPermissions = ''---rwxrwxrwx'', ExportPolicy = ''default'', SecurityStyle = ''unix'',
       DataLIF = ''10.0.0.1'', flexvolNamePrefix = ''trident_qtree_pool_trident_'',
       flexvolExportPolicy = ''trident_qtree_pool_export_policy'' \<rparr>"

definition demoFlexvol :: string where
  "demoFlexvol = ''trident_qtree_pool_trident_ABCDEFGHIJ''"

definition demoQtree :: QtreeInfoType where
  "demoQtree =
     \<lparr> qtreeQtree = ''trident_alpha'', qtreeVolume = demoFlexvol,
       qtreeExportPolicy = ''default'', qtreeMode = ''777'' \<rparr>"

definition demoVolume :: VolumeAttributesType where
  "demoVolume =
     \<lparr> volumeName = demoFlexvol, volumeContainingAggregateName = ''aggr1'',
       volumeSnapshotPolicy = ''none'', volumeSnapdirAccessEnabled = False \<rparr>"

definition demoQuota :: "string \<Rightarrow> QuotaEntryType" where
  "demoQuota diskLimit =
     \<lparr> quotaTarget = ''/vol/'' @ demoFlexvol @ ''/trident_alpha'', quotaDiskLimit = diskLimit \<rparr>"

definition demoExternal :: "string \<Rightarrow> VolumeExternal" where
  "demoExternal sizeStr =
     \<lparr> Config =
         \<lparr> cfgVersion = ''1'', cfgName = ''alpha'', cfgInternalName = ''trident_alpha'',
           cfgSize = sizeStr, cfgProtocol = File, cfgSnapshotPolicy = ''none'',
           cfgExportPolicy = ''default'', cfgSnapshotDir = ''false'', cfgUnixPermissions = ''777'',
           cfgStorageClass = '''', cfgAccessMode = ReadWriteMany, cfgBlockSize = '''',
           cfgFileSystem = '''' \<rparr>,
       Pool = ''aggr1'' \<rparr>"

text \<open>
  An appliance on which every call passes, holding one managed Flexvol with the qtree
  \<^verbatim>\<open>trident_alpha\<close>, and a world in which nothing has happened yet.  Its
  \<open>scaleBySnapReserve\<close> is the exact product cut off to an integer, which is what the
  float64 computation of the source yields on the sizes used below.
\<close>

definition demoAppliance :: appliance where
  "demoAppliance =
     \<lparr> QtreeExists = (\<lambda>name prefix. (False, '''', None)),
       VolumeListByAttrs = (\<lambda>prefix aggregate spaceReserve snapshotPolicy snapshotDir encrypt.
                             ZapiPassed [demoFlexvol]),
       QtreeCount = (\<lambda>flexvol. Inr 1),
       VolumeCreate = (\<lambda>name aggregate size spaceReserve snapshotPolicy unixPermissions
                          exportPolicy securityStyle encrypt. ZapiPassed ()),
       VolumeDisableSnapshotDirectoryAccess = (\<lambda>flexvol. ZapiPassed ()),
       VolumeMount = (\<lambda>flexvol junction. ZapiPassed ()),
       QuotaSetEntry = (\<lambda>qtarget flexvol path qtype diskLimit. ZapiPassed ()),
       QuotaStatus = (\<lambda>flexvol n. ZapiPassed ''on''),
       QuotaOff = (\<lambda>flexvol. ZapiPassed ()),
       QuotaOn = (\<lambda>flexvol. ZapiPassed ()),
       QuotaResize = (\<lambda>flexvol. ZapiPassed ()),
       VolumeGet = (\<lambda>flexvol. Inr 5),
       QuotaEntryList = (\<lambda>flexvol. ZapiPassed [''-'', ''1048576'']),
       SetVolumeSize = (\<lambda>flexvol size. ZapiPassed ()),
       QtreeCreate = (\<lambda>name flexvol unixPermissions exportPolicy securityStyle. ZapiPassed ()),
       QtreeRename = (\<lambda>path newPath. ZapiPassed ()),
       QtreeDestroyAsync = (\<lambda>path force. ZapiPassed ()),
       QtreeListOutcome = ZapiPassed (),
       qtrees = [(demoFlexvol, ''''), (demoFlexvol, ''trident_alpha'')],
       UnmountVolume = (\<lambda>mountpoint config. None),
       ValidateEncryptionAttribute = (\<lambda>encryption. Inr None),
       MinimumVolumeSizeBytes = 1048576,
       EVOLUMEDOESNOTEXIST = ''13040'',
       scaleBySnapReserve = (\<lambda>x pct. word_of_int (uint x * (100 + pct) div 100)),
       randomByte = (\<lambda>k i. k + i),
       randIntn = (\<lambda>n. 0),
       rangeOrder = (\<lambda>m. filter (\<lambda>k. m k = Some True) [''fv1'', ''fv2'', ''fv3'']) \<rparr>"

definition emptyWorld :: world where
  "emptyWorld = \<lparr> quotaResizeMap = Map.empty, trace = [], polls = 0, draws = 0 \<rparr>"

text \<open>
  Three Flexvols flagged for a quota resize: the resize passes on the first, the appliance
  reports that the second does not exist, and the transport fails on the third.
\<close>

definition resizeAppliance :: appliance where
  "resizeAppliance =
     demoAppliance\<lparr> QuotaResize :=
       (\<lambda>flexvol. if flexvol = ''fv1'' then ZapiPassed ()
                  else if flexvol = ''fv2'' then ZapiFailed ''13040'' ''volume does not exist''
                  else TransportError ''connection refused'') \<rparr>"

definition resizeWorld :: world where
  "resizeWorld = emptyWorld\<lparr> quotaResizeMap := [''fv1'' \<mapsto> True, ''fv2'' \<mapsto> True, ''fv3'' \<mapsto> True] \<rparr>"

text \<open>
  Whether \<^verbatim>\<open>resizeQuotas\<close> takes a Flexvol out of the map: the resize passed, or the
  appliance reports that the volume does not exist.
\<close>

definition resizeSettled :: "appliance \<Rightarrow> string \<Rightarrow> bool" where
  "resizeSettled env flexvol =
     (case QuotaResize env flexvol of
        TransportError err \<Rightarrow> False
      | ZapiFailed code msg \<Rightarrow> code = EVOLUMEDOESNOTEXIST env
      | ZapiPassed u \<Rightarrow> True)"

text \<open>
  A Flexvol is under the cap when \<^verbatim>\<open>QtreeCount\<close> answers with fewer than
  \<^verbatim>\<open>maxQtreesPerFlexvol\<close> qtrees.
\<close>

definition underCap :: "appliance \<Rightarrow> string \<Rightarrow> bool" where
  "underCap env flexvol =
     (case QtreeCount env flexvol of Inl err \<Rightarrow> False | Inr count \<Rightarrow> count < maxQtreesPerFlexvol)"

text \<open>
  A pool in which \<^verbatim>\<open>fv_full\<close> holds 200 qtrees, \<^verbatim>\<open>fv_a\<close> 3 and \<^verbatim>\<open>fv_b\<close> 199; the
  appliance lists the Flexvols \<open>vols\<close> as matching, and the random draw is \<open>r\<close>.
\<close>

definition poolAppliance :: "string list \<Rightarrow> nat \<Rightarrow> appliance" where
  "poolAppliance vols r =
     demoAppliance\<lparr>
       VolumeListByAttrs := (\<lambda>prefix aggregate spaceReserve snapshotPolicy snapshotDir encrypt.
                               ZapiPassed vols),
       QtreeCount := (\<lambda>flexvol. if flexvol = ''fv_full'' then Inr 200
                                else if flexvol = ''fv_a'' then Inr 3
                                else if flexvol = ''fv_b'' then Inr 199
                                else Inl ''volume not found''),
       randIntn := (\<lambda>n. r) \<rparr>"

text \<open>
  The qtree \<^verbatim>\<open>trident_q...q\<close>, whose name is 60 bytes long, exists on the demo Flexvol.
\<close>

definition longName :: string where
  "longName = ''trident_qqqqqqqqqqqqqqqqqqqqqqqqqqqqqqqqqqqqqqqqqqqqqqqqqqqq''"

definition destroyAppliance :: appliance where
  "destroyAppliance =
     demoAppliance\<lparr> QtreeExists := (\<lambda>name prefix. (name = longName, demoFlexvol, None)) \<rparr>"

text \<open>
  A driver configured with the empty storage prefix, and the appliance after that driver's
  \<^verbatim>\<open>Destroy\<close> of the qtree \<^verbatim>\<open>alpha\<close> has renamed it to \<^verbatim>\<open>deleted_alpha_abcde\<close>.
\<close>

definition bareDriver :: driver where
  "bareDriver = demoDriver\<lparr> StoragePrefix := '''', flexvolNamePrefix := ''trident_qtree_pool_'' \<rparr>"

definition bareFlexvol :: string where
  "bareFlexvol = ''trident_qtree_pool_ABCDEFGHIJ''"

definition bareAppliance :: appliance where
  "bareAppliance =
     demoAppliance\<lparr> QtreeExists := (\<lambda>name prefix. (name = ''alpha'', bareFlexvol, None)),
                    qtrees := [(bareFlexvol, ''deleted_alpha_abcde'')] \<rparr>"



text \<open>
  The replies to \<^verbatim>\<open>QuotaStatus\<close> on which the wait loop of \<^verbatim>\<open>enableQuotas\<close> stops: the
  call failed, or the status is \<^verbatim>\<open>on\<close> or \<^verbatim>\<open>corrupt\<close>.
\<close>

definition settlesOn :: "string reply \<Rightarrow> bool" where
  "settlesOn r = (case r of ZapiPassed status \<Rightarrow> status = ''on'' \<or> status = ''corrupt'' | _ \<Rightarrow> True)"

text \<open>The events of \<open>k\<close> iterations of a wait loop: a sleep of one second, then a status read.\<close>

definition pollEvents :: "string \<Rightarrow> nat \<Rightarrow> event list" where
  "pollEvents flexvol k = concat (replicate k [EvSleep 1, EvQuotaStatus flexvol])"

text \<open>
  An appliance whose quotas are \<^verbatim>\<open>mixed\<close> at the first status read and \<^verbatim>\<open>on\<close> afterwards,
  and one whose quotas are \<^verbatim>\<open>off\<close>, then \<^verbatim>\<open>initializing\<close>, then \<^verbatim>\<open>on\<close>.
\<close>

definition mixedAppliance :: appliance where
  "mixedAppliance =
     demoAppliance\<lparr> QuotaStatus := (\<lambda>flexvol n. ZapiPassed (if n = 0 then ''mixed'' else ''on'')) \<rparr>"

definition offAppliance :: appliance where
  "offAppliance =
     demoAppliance\<lparr> QuotaStatus :=
       (\<lambda>flexvol n. ZapiPassed (if n = 0 then ''off'' else if n = 1 then ''initializing'' else ''on'')) \<rparr>"

text \<open>
  An appliance on which every \<^verbatim>\<open>QuotaSetEntry\<close> fails, one whose quotas are always
  \<^verbatim>\<open>corrupt\<close>, and one whose quotas are \<^verbatim>\<open>on\<close> at the first status read and
  \<^verbatim>\<open>corrupt\<close> afterwards.  On the last two no Flexvol matches, so that a new one is
  created; \<open>newFlexvol\<close> is its name with the random draw of the demo appliance.
\<close>

definition quotaFailAppliance :: appliance where
  "quotaFailAppliance =
     demoAppliance\<lparr> QuotaSetEntry :=
       (\<lambda>qtarget flexvol path qtype diskLimit. ZapiFailed ''13001'' ''quota rule rejected'') \<rparr>"

definition corruptAppliance :: appliance where
  "corruptAppliance =
     demoAppliance\<lparr>
       VolumeListByAttrs := (\<lambda>prefix aggregate spaceReserve snapshotPolicy snapshotDir encrypt.
                               ZapiPassed []),
       QuotaStatus := (\<lambda>flexvol n. ZapiPassed ''corrupt'') \<rparr>"

definition pollCorruptAppliance :: appliance where
  "pollCorruptAppliance =
     demoAppliance\<lparr>
       VolumeListByAttrs := (\<lambda>prefix aggregate spaceReserve snapshotPolicy snapshotDir encrypt.
                               ZapiPassed []),
       QuotaStatus := (\<lambda>flexvol n. ZapiPassed (if n = 0 then ''on'' else ''corrupt'')) \<rparr>"

text \<open>
  What \<^verbatim>\<open>Create(trident_beta, 1 GiB)\<close> does on the appliance on which \<^verbatim>\<open>QuotaSetEntry\<close>
  fails.
\<close>

definition quotaFailTrace :: "event list" where
  "quotaFailTrace =
     [EvQtreeExists ''trident_beta'' ''trident_qtree_pool_trident_'',
      EvVolumeListByAttrs ''trident_qtree_pool_trident_'' ''aggr1'' ''none'' ''none'' False None,
      EvQtreeCount demoFlexvol,
      EvVolumeGet demoFlexvol,
      EvQuotaEntryList demoFlexvol,
      EvSetVolumeSize demoFlexvol ''2254857830'',
      EvQtreeCreate ''trident_beta'' demoFlexvol ''---rwxrwxrwx'' ''default'' ''unix'',
      EvQuotaSetEntry [] demoFlexvol (''/vol/'' @ demoFlexvol @ ''/trident_beta'') ''tree''
        ''1048576'']"

definition newFlexvol :: string where
  "newFlexvol = ''trident_qtree_pool_trident_abcdefghij''"

section \<open>Properties\<close>

subsection \<open>Evaluation of the library functions\<close>

lemma FormatUint_small: "n < 10 \<Longrightarrow> FormatUint n = [''0123456789'' ! n]"
  by (subst FormatUint.simps) simp

lemma FormatUint_large:
  "10 \<le> n \<Longrightarrow> FormatUint n = FormatUint (n div 10) @ [''0123456789'' ! (n mod 10)]"
  by (subst FormatUint.simps) simp

lemmas FormatUint_eval = FormatUint_small FormatUint_large

lemmas Parse_eval = ParseInt_def ParseUint_def digitVal_def

lemma sint_times_1024:
  assumes "- (2 ^ 53) \<le> n" "n < 2 ^ 53"
  shows "sint (word_of_int n * 1024 :: 64 word) = n * 1024"
proof -
  have c: "(word_of_int n * 1024 :: 64 word) = word_of_int (n * 1024)" by simp
  have a: "sint (word_of_int (n * 1024) :: 64 word) = signed_take_bit (LENGTH(64) - 1) (n * 1024)"
    by (rule sint_sbintrunc')
  have b: "signed_take_bit (LENGTH(64) - 1) (n * 1024) = n * 1024"
    using assms by (intro signed_take_bit_int_eq_self) simp_all
  show ?thesis by (simp only: c a b)
qed

subsection \<open>Detach\<close>

text \<open>
  C9.  For every call to \<^verbatim>\<open>Detach(name, mountpoint)\<close> the result is exactly the result of
  the unmount collaborator \<^verbatim>\<open>UnmountVolume\<close>, whatever \<^verbatim>\<open>QtreeExists\<close> answers: the
  qtree absent, or the call itself failing with a transport error.  The unmount is the last
  thing \<^verbatim>\<open>Detach\<close> does.
\<close>

theorem Detach_returns_unmount_result:
  "fst (Detach env d name mountpoint w) = UnmountVolume env mountpoint d \<and>
   last (trace (snd (Detach env d name mountpoint w))) = EvUnmountVolume mountpoint"
  by (simp add: Detach_def emit_def Let_def split: prod.splits)

subsection \<open>The size of the external representation\<close>

text \<open>
  C10 as stated fails: a disk limit of \<open>2^53\<close> KiB parses, and the multiplication by 1024
  wraps around in \<^verbatim>\<open>int64\<close>, so that the reported size is negative and not the parsed
  limit multiplied by 1024.
\<close>

theorem getVolumeExternal_Size_wraps:
  "ParseInt ''9007199254740992'' = Some 9007199254740992 \<and>
   getVolumeExternal demoDriver ''1'' demoQtree demoVolume (demoQuota ''9007199254740992'')
     = Return (demoExternal ''-9223372036854775808'') \<and>
   FormatInt (9007199254740992 * 1024) = ''9223372036854775808''"
  by (simp add: getVolumeExternal_def externalSize_def sliceFrom_def Let_def Parse_eval
        FormatInt_def FormatBool_def FormatUint_eval
        demoDriver_def demoQtree_def demoVolume_def demoQuota_def demoExternal_def demoFlexvol_def)

text \<open>
  C10, amended.  Whenever the storage prefix is not longer than the qtree's name,
  \<^verbatim>\<open>getVolumeExternal\<close> builds a representation.  Its Size is \<^verbatim>\<open>0\<close> when the disk limit
  does not parse with \<^verbatim>\<open>strconv.ParseInt\<close>, in particular for the unlimited value
  \<^verbatim>\<open>-\<close>; otherwise it is the parsed limit multiplied by 1024 in 64-bit two's complement
  arithmetic, which is the parsed limit multiplied by 1024 whenever the limit lies in
  \<open>[-2^53, 2^53)\<close>.
\<close>

theorem getVolumeExternal_Size:
  assumes "length (StoragePrefix d) \<le> length (qtreeQtree qtreeAttrs)"
  shows "\<exists>ve. getVolumeExternal d v qtreeAttrs volumeAttrs quotaAttrs = Return ve \<and>
    (ParseInt (quotaDiskLimit quotaAttrs) = None \<longrightarrow> cfgSize (Config ve) = ''0'') \<and>
    (quotaDiskLimit quotaAttrs = ''-'' \<longrightarrow> cfgSize (Config ve) = ''0'') \<and>
    (\<forall>n. ParseInt (quotaDiskLimit quotaAttrs) = Some n \<longrightarrow>
       cfgSize (Config ve) = FormatInt (sint (word_of_int n * 1024 :: 64 word)) \<and>
       (- (2 ^ 53) \<le> n \<and> n < 2 ^ 53 \<longrightarrow> cfgSize (Config ve) = FormatInt (n * 1024)))"
  using assms
  by (auto simp: getVolumeExternal_def externalSize_def sliceFrom_def Let_def FormatInt_def
        FormatUint_small sint_times_1024 Parse_eval split: option.splits)

theorem getVolumeExternal_Size_witness:
  "length (StoragePrefix demoDriver) \<le> length (qtreeQtree demoQtree) \<and>
   ParseInt ''1048576'' = Some 1048576 \<and>
   getVolumeExternal demoDriver ''1'' demoQtree demoVolume (demoQuota ''1048576'')
     = Return (demoExternal ''1073741824'') \<and>
   getVolumeExternal demoDriver ''1'' demoQtree demoVolume (demoQuota ''-'')
     = Return (demoExternal ''0'')"
  using getVolumeExternal_Size [of demoDriver demoQtree "''1''" demoVolume "demoQuota ''1048576''"]
    getVolumeExternal_Size [of demoDriver demoQtree "''1''" demoVolume "demoQuota ''-''"]
  by (simp add: getVolumeExternal_def externalSize_def sliceFrom_def Let_def Parse_eval
        FormatInt_def FormatBool_def FormatUint_eval
        demoDriver_def demoQtree_def demoVolume_def demoQuota_def demoExternal_def demoFlexvol_def)

subsection \<open>The state after a call\<close>

lemma emit_simps [simp]:
  "trace (emit e w) = trace w @ [e]"
  "quotaResizeMap (emit e w) = quotaResizeMap w"
  "polls (emit e w) = polls w"
  "draws (emit e w) = draws w"
  by (simp_all add: emit_def)

subsection \<open>The quota resize sweep\<close>

lemma resizeQuotasStep_map:
  "quotaResizeMap (resizeQuotasStep env f w) =
     (if quotaResizeMap w f = Some True \<and> resizeSettled env f
      then (quotaResizeMap w)(f := None) else quotaResizeMap w)"
  by (simp add: resizeQuotasStep_def resizeSettled_def Let_def split: reply.splits)

lemma resizeQuotasStep_trace:
  "trace (resizeQuotasStep env f w) =
     trace w @ (if quotaResizeMap w f = Some True then [EvQuotaResize f] else [])"
  by (simp add: resizeQuotasStep_def Let_def split: reply.splits)

lemma fold_resize_map:
  "quotaResizeMap (fold (resizeQuotasStep env) xs w) F =
     (if F \<in> set xs \<and> quotaResizeMap w F = Some True \<and> resizeSettled env F
      then None else quotaResizeMap w F)"
proof (induction xs arbitrary: w)
  case Nil
  then show ?case by simp
next
  case (Cons a xs)
  show ?case
    by (simp add: Cons.IH resizeQuotasStep_map)
qed

lemma fold_resize_trace:
  "distinct xs \<Longrightarrow>
   \<exists>evs. trace (fold (resizeQuotasStep env) xs w) = trace w @ evs \<and>
         (\<forall>e\<in>set evs. \<exists>f. e = EvQuotaResize f) \<and>
         count_list evs (EvQuotaResize F) =
           (if F \<in> set xs \<and> quotaResizeMap w F = Some True then 1 else 0)"
proof (induction xs arbitrary: w)
  case Nil
  then show ?case by simp
next
  case (Cons a xs)
  let ?w1 = "resizeQuotasStep env a w"
  from Cons.prems have d: "distinct xs" and na: "a \<notin> set xs" by simp_all
  from Cons.IH [OF d, of ?w1] obtain evs where
    t: "trace (fold (resizeQuotasStep env) xs ?w1) = trace ?w1 @ evs" and
    a: "\<forall>e\<in>set evs. \<exists>f. e = EvQuotaResize f" and
    c: "count_list evs (EvQuotaResize F) =
          (if F \<in> set xs \<and> quotaResizeMap ?w1 F = Some True then 1 else 0)"
    by blast
  let ?evs = "(if quotaResizeMap w a = Some True then [EvQuotaResize a] else []) @ evs"
  have "trace (fold (resizeQuotasStep env) (a # xs) w) = trace w @ ?evs"
    using t by (simp add: resizeQuotasStep_trace)
  moreover have "\<forall>e\<in>set ?evs. \<exists>f. e = EvQuotaResize f"
    using a by auto
  moreover have "count_list ?evs (EvQuotaResize F) =
      (if F \<in> set (a # xs) \<and> quotaResizeMap w F = Some True then 1 else 0)"
    using c na by (auto simp: resizeQuotasStep_map)
  ultimately show ?case by blast
qed

text \<open>
  C7.  In every execution of the quota resize sweep, for every Flexvol \<open>F\<close> flagged in the
  Quota Resize Set (Go's \<^verbatim>\<open>range\<close> visits every key of the map once): exactly one
  \<^verbatim>\<open>QuotaResize(F)\<close> call is issued; \<open>F\<close> is removed from the set when the call
  passes or when the appliance reports that the volume does not exist; on any other error
  (a transport error, another error code) \<open>F\<close> stays flagged for the next sweep.  The sweep
  has no result, and all it appends to the trace are \<^verbatim>\<open>QuotaResize\<close> calls: no line is
  logged at level Error or Warn.
\<close>

theorem resizeQuotas_sweep:
  assumes "set (rangeOrder env (quotaResizeMap w)) = dom (quotaResizeMap w)"
      and "distinct (rangeOrder env (quotaResizeMap w))"
      and "quotaResizeMap w F = Some True"
  shows "(\<exists>evs. trace (resizeQuotas env w) = trace w @ evs \<and>
            (\<forall>e\<in>set evs. \<exists>f. e = EvQuotaResize f) \<and>
            count_list evs (EvQuotaResize F) = 1) \<and>
         quotaResizeMap (resizeQuotas env w) F =
           (case QuotaResize env F of
              TransportError err \<Rightarrow> Some True
            | ZapiFailed code msg \<Rightarrow> if code = EVOLUMEDOESNOTEXIST env then None else Some True
            | ZapiPassed u \<Rightarrow> None)"
proof -
  let ?xs = "rangeOrder env (quotaResizeMap w)"
  have F: "F \<in> set ?xs" using assms(1,3) by auto
  from fold_resize_trace [OF assms(2), of env w F] obtain evs where
    "trace (fold (resizeQuotasStep env) ?xs w) = trace w @ evs"
    "\<forall>e\<in>set evs. \<exists>f. e = EvQuotaResize f"
    "count_list evs (EvQuotaResize F) = 1"
    using F assms(3) by auto
  moreover have "quotaResizeMap (fold (resizeQuotasStep env) ?xs w) F =
             (case QuotaResize env F of
                TransportError err \<Rightarrow> Some True
              | ZapiFailed code msg \<Rightarrow> if code = EVOLUMEDOESNOTEXIST env then None else Some True
              | ZapiPassed u \<Rightarrow> None)"
    using F assms(3) by (simp add: fold_resize_map resizeSettled_def split: reply.splits)
  ultimately show ?thesis unfolding resizeQuotas_def by blast
qed

lemma resize_order:
  "rangeOrder resizeAppliance (quotaResizeMap resizeWorld) = [''fv1'', ''fv2'', ''fv3'']"
  by (simp add: resizeAppliance_def demoAppliance_def resizeWorld_def emptyWorld_def)

lemma resize_dom: "dom (quotaResizeMap resizeWorld) = {''fv1'', ''fv2'', ''fv3''}"
  by (auto simp: resizeWorld_def emptyWorld_def)

lemma resize_replies:
  "QuotaResize resizeAppliance ''fv1'' = ZapiPassed ()"
  "QuotaResize resizeAppliance ''fv2'' = ZapiFailed ''13040'' ''volume does not exist''"
  "QuotaResize resizeAppliance ''fv3'' = TransportError ''connection refused''"
  "EVOLUMEDOESNOTEXIST resizeAppliance = ''13040''"
  by (simp_all add: resizeAppliance_def demoAppliance_def)

lemma resize_run:
  "trace (resizeQuotas resizeAppliance resizeWorld)
     = [EvQuotaResize ''fv1'', EvQuotaResize ''fv2'', EvQuotaResize ''fv3'']"
  by (simp add: resizeQuotas_def resize_order resizeQuotasStep_trace resizeQuotasStep_map)
     (simp add: resizeWorld_def emptyWorld_def)

theorem resizeQuotas_sweep_witness:
  "set (rangeOrder resizeAppliance (quotaResizeMap resizeWorld)) = dom (quotaResizeMap resizeWorld) \<and>
   distinct (rangeOrder resizeAppliance (quotaResizeMap resizeWorld)) \<and>
   quotaResizeMap resizeWorld ''fv3'' = Some True \<and>
   trace (resizeQuotas resizeAppliance resizeWorld)
     = [EvQuotaResize ''fv1'', EvQuotaResize ''fv2'', EvQuotaResize ''fv3''] \<and>
   quotaResizeMap (resizeQuotas resizeAppliance resizeWorld) ''fv3'' = Some True"
proof -
  have h1: "set (rangeOrder resizeAppliance (quotaResizeMap resizeWorld))
              = dom (quotaResizeMap resizeWorld)"
    by (auto simp: resize_order resize_dom)
  have h2: "distinct (rangeOrder resizeAppliance (quotaResizeMap resizeWorld))"
    by (simp add: resize_order)
  have h3: "quotaResizeMap resizeWorld ''fv3'' = Some True"
    by (simp add: resizeWorld_def emptyWorld_def)
  from resizeQuotas_sweep [OF h1 h2 h3]
  have "quotaResizeMap (resizeQuotas resizeAppliance resizeWorld) ''fv3'' = Some True"
    by (simp add: resize_replies)
  with h1 h2 h3 resize_run show ?thesis by simp
qed

subsection \<open>The pool selector\<close>

lemma weedOutFlexvols_Inr:
  "weedOutFlexvols env xs acc w = (Inr vols, w1) \<Longrightarrow> vols = acc @ filter (underCap env) xs"
proof (induction xs arbitrary: acc w)
  case Nil
  then show ?case by simp
next
  case (Cons x xs)
  show ?case
  proof (cases "QtreeCount env x")
    case (Inl e)
    with Cons.prems show ?thesis by simp
  next
    case (Inr count)
    have u: "underCap env x = (count < maxQtreesPerFlexvol)"
      using Inr by (simp add: underCap_def)
    from Cons.prems Inr
    have "weedOutFlexvols env xs (if count < maxQtreesPerFlexvol then acc @ [x] else acc)
            (emit (EvQtreeCount x) w) = (Inr vols, w1)"
      by simp
    from Cons.IH [OF this] show ?thesis using u by simp
  qed
qed

lemma weedOutFlexvols_total:
  "\<forall>v\<in>set xs. \<exists>count. QtreeCount env v = Inr count \<Longrightarrow>
   \<exists>w1. weedOutFlexvols env xs acc w = (Inr (acc @ filter (underCap env) xs), w1)"
proof (induction xs arbitrary: acc w)
  case Nil
  then show ?case by simp
next
  case (Cons x xs)
  from Cons.prems obtain count where c: "QtreeCount env x = Inr count" by auto
  have u: "underCap env x = (count < maxQtreesPerFlexvol)"
    using c by (simp add: underCap_def)
  from Cons.prems have rest: "\<forall>v\<in>set xs. \<exists>count. QtreeCount env v = Inr count" by simp
  from Cons.IH [OF rest, of "if count < maxQtreesPerFlexvol then acc @ [x] else acc"
                  "emit (EvQtreeCount x) w"]
  show ?case using c u by (cases "count < maxQtreesPerFlexvol") auto
qed

lemma getFlexvolForQtree_candidates:
  assumes "getFlexvolForQtree env d aggregate spaceReserve snapshotPolicy enableSnapshotDir encrypt w
             = ((flexvol, err), w1)"
      and "flexvol \<noteq> ''''"
  shows "err = None \<and>
         flexvol \<in> set (filter (underCap env)
           (AttributesList (VolumeListByAttrs env (flexvolNamePrefix d) aggregate spaceReserve
              snapshotPolicy enableSnapshotDir encrypt)))"
proof -
  let ?resp = "VolumeListByAttrs env (flexvolNamePrefix d) aggregate spaceReserve
              snapshotPolicy enableSnapshotDir encrypt"
  let ?w1 = "emit (EvVolumeListByAttrs (flexvolNamePrefix d) aggregate spaceReserve snapshotPolicy
                       enableSnapshotDir encrypt) w"
  from assms have g: "GetError ?resp = None"
    by (auto simp: getFlexvolForQtree_def Let_def split: option.splits)
  obtain r w2 where wo: "weedOutFlexvols env (AttributesList ?resp) [] ?w1 = (r, w2)"
    by (cases "weedOutFlexvols env (AttributesList ?resp) [] ?w1") auto
  from assms g wo obtain vols where r: "r = Inr vols"
    by (cases r) (auto simp: getFlexvolForQtree_def Let_def)
  from weedOutFlexvols_Inr [OF wo [unfolded r]]
  have vols: "vols = filter (underCap env) (AttributesList ?resp)" by simp
  have pick: "vols \<noteq> [] \<Longrightarrow> vols ! (randIntn env (length vols) mod length vols) \<in> set vols"
    by (intro nth_mem) simp
  have one: "vols \<noteq> [] \<Longrightarrow> vols ! 0 \<in> set vols"
    by (intro nth_mem) simp
  from assms g wo r pick one have "err = None \<and> flexvol \<in> set vols"
    by (auto simp: getFlexvolForQtree_def Let_def split: if_splits)
  with vols show ?thesis by simp
qed

text \<open>
  C4.  \<^verbatim>\<open>getFlexvolForQtree\<close> never returns a Flexvol whose qtree count is 200 or more:
  a name it returns is one of the matching Flexvols and \<^verbatim>\<open>QtreeCount\<close> answered with fewer
  than 200 qtrees for it.  When the enumeration passes and every matching Flexvol is at or
  over the cap (none is listed, in particular), it returns the empty string together with
  a nil error.  When the enumeration and every count pass and exactly one candidate remains
  under the cap, it returns that Flexvol.
\<close>

theorem getFlexvolForQtree_selects:
  fixes env d aggregate spaceReserve snapshotPolicy enableSnapshotDir encrypt w
  defines "listed \<equiv> VolumeListByAttrs env (flexvolNamePrefix d) aggregate spaceReserve
                      snapshotPolicy enableSnapshotDir encrypt"
      and "result \<equiv> fst (getFlexvolForQtree env d aggregate spaceReserve snapshotPolicy
                            enableSnapshotDir encrypt w)"
  shows "(fst result \<noteq> '''' \<longrightarrow>
            snd result = None \<and> fst result \<in> set (AttributesList listed) \<and>
            (\<exists>count. QtreeCount env (fst result) = Inr count \<and> count < 200)) \<and>
         (GetError listed = None \<and>
            (\<forall>v\<in>set (AttributesList listed). \<exists>count. QtreeCount env v = Inr count \<and> 200 \<le> count)
            \<longrightarrow> result = ('''', None)) \<and>
         (\<forall>v. GetError listed = None \<and>
            (\<forall>u\<in>set (AttributesList listed). \<exists>count. QtreeCount env u = Inr count) \<and>
            filter (underCap env) (AttributesList listed) = [v]
            \<longrightarrow> result = (v, None))"
proof (intro conjI impI allI)
  obtain flexvol err w1 where run:
    "getFlexvolForQtree env d aggregate spaceReserve snapshotPolicy enableSnapshotDir encrypt w
       = ((flexvol, err), w1)"
    by (metis prod.exhaust)
  assume "fst result \<noteq> ''''"
  with run have ne: "flexvol \<noteq> ''''" by (simp add: result_def)
  from getFlexvolForQtree_candidates [OF run ne]
  have e: "err = None" and m: "flexvol \<in> set (AttributesList listed)" and u: "underCap env flexvol"
    by (simp_all add: listed_def)
  from e run show "snd result = None" by (simp add: result_def)
  from m run show "fst result \<in> set (AttributesList listed)" by (simp add: result_def)
  from u run show "\<exists>count. QtreeCount env (fst result) = Inr count \<and> count < 200"
    by (auto simp: result_def underCap_def maxQtreesPerFlexvol_def split: sum.splits)
next
  assume a: "GetError listed = None \<and>
    (\<forall>v\<in>set (AttributesList listed). \<exists>count. QtreeCount env v = Inr count \<and> 200 \<le> count)"
  then have tot: "\<forall>v\<in>set (AttributesList listed). \<exists>count. QtreeCount env v = Inr count"
    by blast
  from a have none: "filter (underCap env) (AttributesList listed) = []"
    by (auto simp: filter_empty_conv underCap_def maxQtreesPerFlexvol_def)
  let ?w1 = "emit (EvVolumeListByAttrs (flexvolNamePrefix d) aggregate spaceReserve snapshotPolicy
                       enableSnapshotDir encrypt) w"
  from weedOutFlexvols_total [OF tot, of "[]" ?w1] none obtain w2 where
    "weedOutFlexvols env (AttributesList listed) [] ?w1 = (Inr [], w2)" by auto
  with a show "result = ('''', None)"
    unfolding result_def getFlexvolForQtree_def Let_def listed_def [symmetric]
    by simp
next
  fix v
  assume a: "GetError listed = None \<and>
            (\<forall>u\<in>set (AttributesList listed). \<exists>count. QtreeCount env u = Inr count) \<and>
            filter (underCap env) (AttributesList listed) = [v]"
  then have tot: "\<forall>v\<in>set (AttributesList listed). \<exists>count. QtreeCount env v = Inr count"
    by blast
  let ?w1 = "emit (EvVolumeListByAttrs (flexvolNamePrefix d) aggregate spaceReserve snapshotPolicy
                       enableSnapshotDir encrypt) w"
  from weedOutFlexvols_total [OF tot, of "[]" ?w1] a obtain w2 where
    "weedOutFlexvols env (AttributesList listed) [] ?w1 = (Inr [v], w2)" by auto
  with a show "result = (v, None)"
    unfolding result_def getFlexvolForQtree_def Let_def listed_def [symmetric]
    by simp
qed

lemmas pool_eval =
  getFlexvolForQtree_def poolAppliance_def demoAppliance_def demoDriver_def emptyWorld_def
  underCap_def maxQtreesPerFlexvol_def Let_def

theorem getFlexvolForQtree_selects_witness:
  "fst (getFlexvolForQtree (poolAppliance [''fv_full'', ''fv_a'', ''fv_b''] 1) demoDriver
          ''aggr1'' ''none'' ''none'' False None emptyWorld) = (''fv_b'', None) \<and>
   QtreeCount (poolAppliance [''fv_full'', ''fv_a'', ''fv_b''] 1) ''fv_b'' = Inr 199 \<and>
   QtreeCount (poolAppliance [''fv_full''] 0) ''fv_full'' = Inr 200 \<and>
   fst (getFlexvolForQtree (poolAppliance [''fv_full''] 0) demoDriver
          ''aggr1'' ''none'' ''none'' False None emptyWorld) = ([], None) \<and>
   filter (underCap (poolAppliance [''fv_full'', ''fv_a''] 0)) [''fv_full'', ''fv_a''] = [''fv_a''] \<and>
   fst (getFlexvolForQtree (poolAppliance [''fv_full'', ''fv_a''] 0) demoDriver
          ''aggr1'' ''none'' ''none'' False None emptyWorld) = (''fv_a'', None)"
  using
    getFlexvolForQtree_selects [where env = "poolAppliance [''fv_full'', ''fv_a'', ''fv_b''] 1"
      and d = demoDriver and aggregate = "''aggr1''" and spaceReserve = "''none''"
      and snapshotPolicy = "''none''" and enableSnapshotDir = False and encrypt = None
      and w = emptyWorld]
    getFlexvolForQtree_selects [where env = "poolAppliance [''fv_full''] 0"
      and d = demoDriver and aggregate = "''aggr1''" and spaceReserve = "''none''"
      and snapshotPolicy = "''none''" and enableSnapshotDir = False and encrypt = None
      and w = emptyWorld]
    getFlexvolForQtree_selects [where env = "poolAppliance [''fv_full'', ''fv_a''] 0"
      and d = demoDriver and aggregate = "''aggr1''" and spaceReserve = "''none''"
      and snapshotPolicy = "''none''" and enableSnapshotDir = False and encrypt = None
      and w = emptyWorld]
  by (simp add: pool_eval)

subsection \<open>The rename of a qtree marked for deletion\<close>

lemma length_RandomString [simp]: "length (RandomString env k n) = n"
  by (simp add: RandomString_def)

lemma set_RandomString: "set (RandomString env k n) \<subseteq> set alphanumerics"
proof -
  have "length alphanumerics = 62" by (simp add: alphanumerics_def)
  then have "alphanumerics ! (m mod 62) \<in> set alphanumerics" for m
    by (intro nth_mem) simp
  then show ?thesis by (auto simp: RandomString_def)
qed

lemma drop_suffix: "drop (length (xs @ ys) - length ys) (xs @ ys) = ys"
  by simp

lemma RandomString_5:
  "RandomString env k 5 =
     map (\<lambda>i. alphanumerics ! (randomByte env k i mod 62)) [0, 1, 2, 3, 4]"
proof -
  have "[0..<5] = [0, 1, 2, 3, 4::nat]" by (simp add: upt_conv_Cons)
  then show ?thesis by (simp add: RandomString_def)
qed

lemma deletedNameFor_shape:
  assumes "length name \<le> 64"
  shows "\<exists>suffix w1. deletedNameFor env name w =
            (Return (''deleted_'' @ (if 50 < length name then drop 18 name else name) @ ''_'' @ suffix), w1)
          \<and> length suffix = 5 \<and> set suffix \<subseteq> set alphanumerics \<and> trace w1 = trace w"
  using assms set_RandomString
  by (auto simp: deletedNameFor_def deletedQtreeNamePrefix_def maxQtreeNameLength_def sliceFrom_def
        Let_def)

text \<open>
  C5.  For every \<^verbatim>\<open>Destroy(name)\<close> with \<^verbatim>\<open>len(name) \<le> 64\<close> that reaches the rename step
  (\<^verbatim>\<open>QtreeExists\<close> found the qtree on a Flexvol), the rename is the first call after the
  lookup, from \<^verbatim>\<open>/vol/F/name\<close> to \<^verbatim>\<open>/vol/F/deletedName\<close>, where the deleted name begins
  with \<^verbatim>\<open>deleted_\<close>, ends with \<^verbatim>\<open>_\<close> followed by 5 random alphanumerics and is at most
  64 bytes long; when \<^verbatim>\<open>deleted_\<close> + name + \<^verbatim>\<open>_\<close> + 5 characters would exceed 64 bytes
  (the name is longer than 50 bytes), the first 18 bytes of the name are cut off before the
  concatenation.  \<^verbatim>\<open>Destroy\<close> does not panic on the slice.
\<close>

theorem Destroy_rename_target:
  assumes "length name \<le> 64"
      and "QtreeExists env name (flexvolNamePrefix d) = (True, flexvol, None)"
  shows "\<exists>deletedName suffix rest.
           trace (snd (Destroy env d name w)) =
             trace w @ EvQtreeExists name (flexvolNamePrefix d)
               # EvQtreeRename (''/vol/'' @ flexvol @ ''/'' @ name)
                               (''/vol/'' @ flexvol @ ''/'' @ deletedName) # rest \<and>
           length suffix = 5 \<and> set suffix \<subseteq> set alphanumerics \<and>
           deletedName =
             ''deleted_''
             @ (if 64 < length (''deleted_'' @ name @ ''_'') + 5 then drop (length ''deleted_'' + 10) name
                else name)
             @ ''_'' @ suffix \<and>
           take 8 deletedName = ''deleted_'' \<and>
           drop (length deletedName - 6) deletedName = ''_'' @ suffix \<and>
           length deletedName \<le> 64 \<and>
           fst (Destroy env d name w) \<noteq> Panic"
proof -
  let ?w1 = "emit (EvQtreeExists name (flexvolNamePrefix d)) w"
  let ?body = "if 50 < length name then drop 18 name else name"
  from deletedNameFor_shape [OF assms(1), of env ?w1] obtain suffix w2 where
    dn: "deletedNameFor env name ?w1 = (Return (''deleted_'' @ ?body @ ''_'' @ suffix), w2)" and
    len: "length suffix = 5" and alnum: "set suffix \<subseteq> set alphanumerics" and
    tr: "trace w2 = trace ?w1"
    by blast
  let ?dn = "''deleted_'' @ ?body @ ''_'' @ suffix"
  let ?path = "''/vol/'' @ flexvol @ ''/'' @ name"
  let ?dpath = "''/vol/'' @ flexvol @ ''/'' @ ?dn"
  have run: "\<exists>rest. trace (snd (Destroy env d name w)) =
               trace w @ EvQtreeExists name (flexvolNamePrefix d) # EvQtreeRename ?path ?dpath # rest
             \<and> fst (Destroy env d name w) \<noteq> Panic"
    using assms(2) dn tr
    by (cases "GetError (QtreeRename env ?path ?dpath)";
        cases "GetError (QtreeDestroyAsync env ?dpath True)")
       (simp_all add: Destroy_def Let_def)
  have shape: "?dn = ''deleted_''
             @ (if 64 < length (''deleted_'' @ name @ ''_'') + 5 then drop (length ''deleted_'' + 10) name
                else name)
             @ ''_'' @ suffix"
    by simp
  have l: "length ?dn \<le> 64" using assms(1) len by auto
  have t: "take 8 ?dn = ''deleted_''" by simp
  have "drop (length ((''deleted_'' @ ?body) @ ''_'' @ suffix) - length (''_'' @ suffix))
          ((''deleted_'' @ ?body) @ ''_'' @ suffix) = ''_'' @ suffix"
    by (rule drop_suffix)
  then have e: "drop (length ?dn - 6) ?dn = ''_'' @ suffix" using len by simp
  from run shape l t e len alnum show ?thesis by blast
qed

lemma destroy_run:
  "trace (snd (Destroy destroyAppliance demoDriver longName emptyWorld)) =
     [EvQtreeExists longName ''trident_qtree_pool_trident_'',
      EvQtreeRename (''/vol/'' @ demoFlexvol @ ''/'' @ longName)
        (''/vol/'' @ demoFlexvol @ ''/deleted_qqqqqqqqqqqqqqqqqqqqqqqqqqqqqqqqqqqqqqqqqq_bcdef''),
      EvQtreeDestroyAsync (''/vol/'' @ demoFlexvol @ ''/deleted_qqqqqqqqqqqqqqqqqqqqqqqqqqqqqqqqqqqqqqqqqq_bcdef'') True]"
  by (simp add: Destroy_def deletedNameFor_def destroyAppliance_def demoAppliance_def demoDriver_def
        emptyWorld_def longName_def deletedQtreeNamePrefix_def maxQtreeNameLength_def sliceFrom_def
        RandomString_5 alphanumerics_def Let_def)

theorem Destroy_rename_target_witness:
  "length longName \<le> 64 \<and>
   QtreeExists destroyAppliance longName (flexvolNamePrefix demoDriver) = (True, demoFlexvol, None) \<and>
   trace (snd (Destroy destroyAppliance demoDriver longName emptyWorld)) =
     [EvQtreeExists longName ''trident_qtree_pool_trident_'',
      EvQtreeRename (''/vol/'' @ demoFlexvol @ ''/'' @ longName)
        (''/vol/'' @ demoFlexvol @ ''/deleted_qqqqqqqqqqqqqqqqqqqqqqqqqqqqqqqqqqqqqqqqqq_bcdef''),
      EvQtreeDestroyAsync (''/vol/'' @ demoFlexvol @ ''/deleted_qqqqqqqqqqqqqqqqqqqqqqqqqqqqqqqqqqqqqqqqqq_bcdef'') True] \<and>
   fst (Destroy destroyAppliance demoDriver longName emptyWorld) \<noteq> Panic"
proof -
  have h1: "length longName \<le> 64" by (simp add: longName_def)
  have h2: "QtreeExists destroyAppliance longName (flexvolNamePrefix demoDriver)
              = (True, demoFlexvol, None)"
    by (simp add: destroyAppliance_def demoAppliance_def)
  from Destroy_rename_target [OF h1 h2, where w = emptyWorld]
  have "fst (Destroy destroyAppliance demoDriver longName emptyWorld) \<noteq> Panic" by blast
  with h1 h2 destroy_run show ?thesis by simp
qed

subsection \<open>List\<close>








text \<open>
  Not part of the amended C6: whether a qtree that has been renamed for deletion is hidden
  from \<^verbatim>\<open>List\<close>.  The comment in \<^verbatim>\<open>Destroy\<close> says that the rename is there so that the
  qtree does not show up in lists, but with the empty storage prefix the renamed qtree
  \<^verbatim>\<open>deleted_alpha_abcde\<close> is enumerated and listed.
\<close>

lemma List_empty_prefix_lists_renamed_qtree:
  "trace (snd (Destroy bareAppliance bareDriver ''alpha'' emptyWorld)) =
     [EvQtreeExists ''alpha'' ''trident_qtree_pool_'',
      EvQtreeRename (''/vol/'' @ bareFlexvol @ ''/alpha'')
                    (''/vol/'' @ bareFlexvol @ ''/deleted_alpha_abcde''),
      EvQtreeDestroyAsync (''/vol/'' @ bareFlexvol @ ''/deleted_alpha_abcde'') True] \<and>
   qtrees bareAppliance = [(bareFlexvol, ''deleted_alpha_abcde'')] \<and>
   fst (List bareAppliance bareDriver emptyWorld) = Return ([''deleted_alpha_abcde''], None)"
  by (simp add: Destroy_def deletedNameFor_def List_def QtreeList_def bareAppliance_def
        bareDriver_def bareFlexvol_def demoAppliance_def demoDriver_def emptyWorld_def
        deletedQtreeNamePrefix_def maxQtreeNameLength_def sliceFrom_def RandomString_5
        alphanumerics_def Let_def)

subsection \<open>Enabling and disabling quotas\<close>

lemma getQuotaStatus_snd:
  "snd (getQuotaStatus env flexvol w) = emit (EvQuotaStatus flexvol) (w\<lparr>polls := polls w + 1\<rparr>)"
  by (simp add: getQuotaStatus_def Let_def split: reply.splits)

lemma getQuotaStatus_fst:
  "fst (getQuotaStatus env flexvol w) = Inr status \<longleftrightarrow>
     QuotaStatus env flexvol (polls w) = ZapiPassed status"
  by (simp add: getQuotaStatus_def Let_def split: reply.splits)

lemma getQuotaStatus_cases:
  obtains (failed) err where
      "getQuotaStatus env flexvol w =
         (Inl err, emit (EvQuotaStatus flexvol) (w\<lparr>polls := polls w + 1\<rparr>))"
      "\<forall>status. QuotaStatus env flexvol (polls w) \<noteq> ZapiPassed status"
    | (passed) status where
      "getQuotaStatus env flexvol w =
         (Inr status, emit (EvQuotaStatus flexvol) (w\<lparr>polls := polls w + 1\<rparr>))"
      "QuotaStatus env flexvol (polls w) = ZapiPassed status"
  by (cases "QuotaStatus env flexvol (polls w)") (auto simp: getQuotaStatus_def Let_def)

lemma pollEvents_Suc:
  "pollEvents flexvol (Suc k) = EvSleep 1 # EvQuotaStatus flexvol # pollEvents flexvol k"
  by (simp add: pollEvents_def)

lemma pollEvents_0 [simp]: "pollEvents flexvol 0 = []"
  by (simp add: pollEvents_def)

lemma waitQuotasOn_run:
  "waitQuotasOn fuel env flexvol status w = Some (r, w1) \<Longrightarrow>
   \<exists>k. trace w1 = trace w @ pollEvents flexvol k \<and> polls w1 = polls w + k \<and>
       (r = None \<longrightarrow> (k = 0 \<and> status = ''on'') \<or>
                      (0 < k \<and> QuotaStatus env flexvol (polls w1 - 1) = ZapiPassed ''on'')) \<and>
       (0 < k \<and> QuotaStatus env flexvol (polls w1 - 1) = ZapiPassed ''corrupt'' \<longrightarrow>
          r = Some (''error enabling quotas: quotas are corrupt on flexvol '' @ flexvol))"
proof (induction fuel arbitrary: status w)
  case 0
  then show ?case by (auto split: if_splits intro: exI [of _ 0])
next
  case (Suc fuel)
  show ?case
  proof (cases "status = ''on''")
    case True
    with Suc.prems show ?thesis by (auto intro: exI [of _ 0])
  next
    case False
    let ?w0 = "emit (EvSleep 1) w"
    let ?w2 = "emit (EvQuotaStatus flexvol) (?w0\<lparr>polls := polls ?w0 + 1\<rparr>)"
    have tr2: "trace ?w2 = trace w @ pollEvents flexvol (Suc 0)" and po2: "polls ?w2 = polls w + 1"
      by (simp_all add: pollEvents_Suc)
    show ?thesis
    proof (cases rule: getQuotaStatus_cases [of env flexvol ?w0])
      case (failed err)
      with Suc.prems False have "w1 = ?w2" and "r \<noteq> None" by auto
      with tr2 po2 failed(2) show ?thesis
        by (intro exI [of _ "Suc 0"]) simp
    next
      case (passed status1)
      show ?thesis
      proof (cases "status1 = ''corrupt''")
        case True
        with Suc.prems False passed
        have "w1 = ?w2"
          and "r = Some (''error enabling quotas: quotas are corrupt on flexvol '' @ flexvol)"
          by auto
        with tr2 po2 show ?thesis
          by (intro exI [of _ "Suc 0"]) simp
      next
        case notcorrupt: False
        with Suc.prems False passed
        have "waitQuotasOn fuel env flexvol status1 ?w2 = Some (r, w1)" by simp
        from Suc.IH [OF this] obtain k where
          k1: "trace w1 = trace ?w2 @ pollEvents flexvol k" and k2: "polls w1 = polls ?w2 + k" and
          k3: "r = None \<longrightarrow> (k = 0 \<and> status1 = ''on'') \<or>
                      (0 < k \<and> QuotaStatus env flexvol (polls w1 - 1) = ZapiPassed ''on'')" and
          k4: "0 < k \<and> QuotaStatus env flexvol (polls w1 - 1) = ZapiPassed ''corrupt'' \<longrightarrow>
                 r = Some (''error enabling quotas: quotas are corrupt on flexvol '' @ flexvol)"
          by blast
        have here: "QuotaStatus env flexvol (polls w) = ZapiPassed status1"
          using passed(2) by simp
        have a: "trace w1 = trace w @ pollEvents flexvol (Suc k)"
          using k1 by (simp add: pollEvents_Suc)
        have b: "polls w1 = polls w + Suc k" using k2 by simp
        have c: "r = None \<longrightarrow> QuotaStatus env flexvol (polls w1 - 1) = ZapiPassed ''on''"
          using k3 b here by (cases k) auto
        have d: "QuotaStatus env flexvol (polls w1 - 1) = ZapiPassed ''corrupt'' \<longrightarrow>
                 r = Some (''error enabling quotas: quotas are corrupt on flexvol '' @ flexvol)"
          using k4 b here notcorrupt by (cases k) auto
        from a b c d show ?thesis
          by (intro exI [of _ "Suc k"]) simp
      qed
    qed
  qed
qed

lemma waitQuotasOff_run:
  "waitQuotasOff fuel env flexvol status w = Some (r, w1) \<Longrightarrow>
   \<exists>k. trace w1 = trace w @ pollEvents flexvol k \<and> polls w1 = polls w + k"
proof (induction fuel arbitrary: status w)
  case 0
  then show ?case by (auto split: if_splits intro: exI [of _ 0])
next
  case (Suc fuel)
  show ?case
  proof (cases "status = ''off''")
    case True
    with Suc.prems show ?thesis by (auto intro: exI [of _ 0])
  next
    case False
    let ?w0 = "emit (EvSleep 1) w"
    let ?w2 = "emit (EvQuotaStatus flexvol) (?w0\<lparr>polls := polls ?w0 + 1\<rparr>)"
    have tr2: "trace ?w2 = trace w @ pollEvents flexvol (Suc 0)" and po2: "polls ?w2 = polls w + 1"
      by (simp_all add: pollEvents_Suc)
    show ?thesis
    proof (cases rule: getQuotaStatus_cases [of env flexvol ?w0])
      case (failed err)
      with Suc.prems False have "w1 = ?w2" by auto
      with tr2 po2 show ?thesis
        by (intro exI [of _ "Suc 0"]) simp
    next
      case (passed status1)
      show ?thesis
      proof (cases "status1 = ''corrupt''")
        case True
        with Suc.prems False passed have "w1 = ?w2" by auto
        with tr2 po2 show ?thesis
          by (intro exI [of _ "Suc 0"]) simp
      next
        case notcorrupt: False
        with Suc.prems False passed
        have "waitQuotasOff fuel env flexvol status1 ?w2 = Some (r, w1)" by simp
        from Suc.IH [OF this] obtain k where
          "trace w1 = trace ?w2 @ pollEvents flexvol k" and "polls w1 = polls ?w2 + k"
          by blast
        then show ?thesis
          by (intro exI [of _ "Suc k"]) (simp add: pollEvents_Suc)
      qed
    qed
  qed
qed

lemma waitQuotasOn_total:
  "status = ''on'' \<or> (\<exists>k<fuel. settlesOn (QuotaStatus env flexvol (polls w + k))) \<Longrightarrow>
   waitQuotasOn fuel env flexvol status w \<noteq> None"
proof (induction fuel arbitrary: status w)
  case 0
  then show ?case by simp
next
  case (Suc fuel)
  show ?case
  proof (cases "status = ''on''")
    case True
    then show ?thesis by simp
  next
    case False
    with Suc.prems obtain k where k: "k < Suc fuel"
      and s: "settlesOn (QuotaStatus env flexvol (polls w + k))"
      by blast
    let ?w0 = "emit (EvSleep 1) w"
    let ?w2 = "emit (EvQuotaStatus flexvol) (?w0\<lparr>polls := polls ?w0 + 1\<rparr>)"
    show ?thesis
    proof (cases rule: getQuotaStatus_cases [of env flexvol ?w0])
      case (failed err)
      with False show ?thesis by simp
    next
      case (passed status1)
      show ?thesis
      proof (cases "status1 = ''corrupt''")
        case True
        with False passed show ?thesis by simp
      next
        case notcorrupt: False
        have "status1 = ''on'' \<or> (\<exists>j<fuel. settlesOn (QuotaStatus env flexvol (polls ?w2 + j)))"
        proof (cases k)
          case 0
          with s passed(2) notcorrupt show ?thesis by (simp add: settlesOn_def)
        next
          case (Suc j)
          with k s have "j < fuel" and "settlesOn (QuotaStatus env flexvol (polls ?w2 + j))"
            by simp_all
          then show ?thesis by blast
        qed
        from Suc.IH [OF this] False passed notcorrupt show ?thesis by simp
      qed
    qed
  qed
qed

text \<open>
  C8 as stated fails: with the status \<^verbatim>\<open>mixed\<close>, which is neither \<^verbatim>\<open>on\<close> nor
  \<^verbatim>\<open>corrupt\<close>, \<^verbatim>\<open>enableQuotas\<close> issues no \<^verbatim>\<open>QuotaOn\<close> and only polls until the status
  is \<^verbatim>\<open>on\<close>, while \<^verbatim>\<open>disableQuotas\<close> issues \<^verbatim>\<open>QuotaOff\<close> on the same status.
\<close>

theorem enableQuotas_mixed_no_QuotaOn:
  "QuotaStatus mixedAppliance demoFlexvol 0 = ZapiPassed ''mixed'' \<and>
   enableQuotas (Suc 0) mixedAppliance demoFlexvol True emptyWorld =
     Some (None, emptyWorld\<lparr> trace := [EvQuotaStatus demoFlexvol, EvSleep 1, EvQuotaStatus demoFlexvol],
                               polls := 2 \<rparr>) \<and>
   disableQuotas 0 mixedAppliance demoFlexvol False emptyWorld =
     Some (None, emptyWorld\<lparr> trace := [EvQuotaStatus demoFlexvol, EvQuotaOff demoFlexvol],
                               polls := 1 \<rparr>)"
  by (simp add: enableQuotas_def disableQuotas_def getQuotaStatus_def mixedAppliance_def
        demoAppliance_def emptyWorld_def emit_def Let_def)

text \<open>
  C8, amended.  \<^verbatim>\<open>enableQuotas\<close> reads the status and issues \<^verbatim>\<open>QuotaOn\<close> exactly when the
  status read is \<^verbatim>\<open>off\<close>; \<^verbatim>\<open>disableQuotas\<close> issues \<^verbatim>\<open>QuotaOff\<close> exactly when the status
  read is neither \<^verbatim>\<open>off\<close> nor \<^verbatim>\<open>corrupt\<close>.  Whatever else either of them does is a number
  of polls, each a sleep of one second followed by a status read, and none when waiting is
  not requested.  When waiting is requested and \<^verbatim>\<open>enableQuotas\<close> succeeds, the last status
  read was \<^verbatim>\<open>on\<close>; when the last status read was \<^verbatim>\<open>corrupt\<close> it fails with an error
  that names the Flexvol.  It returns as soon as a status read fails or yields \<^verbatim>\<open>on\<close> or
  \<^verbatim>\<open>corrupt\<close>: if one of the first \<open>fuel + 1\<close> reads does, \<open>fuel\<close> iterations are enough.
\<close>

theorem enableQuotas_drives_to_on:
  "(\<forall>r w1. enableQuotas fuel env flexvol wait w = Some (r, w1) \<longrightarrow>
      polls w < polls w1 \<and>
      trace w1 = trace w @ [EvQuotaStatus flexvol]
        @ (if QuotaStatus env flexvol (polls w) = ZapiPassed ''off'' then [EvQuotaOn flexvol] else [])
        @ pollEvents flexvol (polls w1 - polls w - 1) \<and>
      (\<not> wait \<longrightarrow> polls w1 = polls w + 1) \<and>
      (wait \<and> r = None \<longrightarrow> QuotaStatus env flexvol (polls w1 - 1) = ZapiPassed ''on'') \<and>
      (QuotaStatus env flexvol (polls w1 - 1) = ZapiPassed ''corrupt'' \<longrightarrow>
         r = Some (''error enabling quotas: quotas are corrupt on flexvol '' @ flexvol))) \<and>
   (\<forall>r w1. disableQuotas fuel env flexvol wait w = Some (r, w1) \<longrightarrow>
      trace w1 = trace w @ [EvQuotaStatus flexvol]
        @ (if \<exists>status. QuotaStatus env flexvol (polls w) = ZapiPassed status \<and>
                       status \<noteq> ''off'' \<and> status \<noteq> ''corrupt''
           then [EvQuotaOff flexvol] else [])
        @ pollEvents flexvol (polls w1 - polls w - 1) \<and>
      (\<not> wait \<longrightarrow> polls w1 = polls w + 1)) \<and>
   ((\<exists>k\<le>fuel. settlesOn (QuotaStatus env flexvol (polls w + k))) \<longrightarrow>
      enableQuotas fuel env flexvol wait w \<noteq> None)"
proof (intro conjI allI impI)
  fix r w1
  assume run: "enableQuotas fuel env flexvol wait w = Some (r, w1)"
  let ?w1 = "emit (EvQuotaStatus flexvol) (w\<lparr>polls := polls w + 1\<rparr>)"
  let ?goal = "polls w < polls w1 \<and>
      trace w1 = trace w @ [EvQuotaStatus flexvol]
        @ (if QuotaStatus env flexvol (polls w) = ZapiPassed ''off'' then [EvQuotaOn flexvol] else [])
        @ pollEvents flexvol (polls w1 - polls w - 1) \<and>
      (\<not> wait \<longrightarrow> polls w1 = polls w + 1) \<and>
      (wait \<and> r = None \<longrightarrow> QuotaStatus env flexvol (polls w1 - 1) = ZapiPassed ''on'') \<and>
      (QuotaStatus env flexvol (polls w1 - 1) = ZapiPassed ''corrupt'' \<longrightarrow>
         r = Some (''error enabling quotas: quotas are corrupt on flexvol '' @ flexvol))"
  have ?goal
  proof (cases rule: getQuotaStatus_cases [of env flexvol w])
    case (failed err)
    with run have "w1 = ?w1" and "r \<noteq> None" by (auto simp: enableQuotas_def)
    with failed(2) show ?thesis by simp
  next
    case (passed status)
    show ?thesis
    proof (cases "status = ''corrupt''")
      case True
      with run passed have "w1 = ?w1"
        and "r = Some (''error enabling quotas: quotas are corrupt on flexvol '' @ flexvol)"
        by (auto simp: enableQuotas_def)
      with passed(2) True show ?thesis by simp
    next
      case notcorrupt: False
      let ?w2 = "if status = ''off'' then emit (EvQuotaOn flexvol) ?w1 else ?w1"
      have tr2: "trace ?w2 = trace w @ [EvQuotaStatus flexvol]
                   @ (if QuotaStatus env flexvol (polls w) = ZapiPassed ''off''
                      then [EvQuotaOn flexvol] else [])"
        and po2: "polls ?w2 = polls w + 1"
        using passed(2) by auto
      show ?thesis
      proof (cases "status = ''off'' \<and> GetError (QuotaOn env flexvol) \<noteq> None")
        case True
        with run passed notcorrupt have "w1 = ?w2" and "r \<noteq> None"
          by (auto simp: enableQuotas_def)
        with tr2 po2 passed(2) True show ?thesis by auto
      next
        case False
        show ?thesis
        proof (cases wait)
          case nowait: False
          with run passed notcorrupt False have "w1 = ?w2"
            by (auto simp: enableQuotas_def split: if_splits)
          with tr2 po2 passed(2) notcorrupt nowait show ?thesis by auto
        next
          case True
          with run passed notcorrupt False
          have "waitQuotasOn fuel env flexvol status ?w2 = Some (r, w1)"
            by (auto simp: enableQuotas_def split: if_splits)
          from waitQuotasOn_run [OF this] obtain k where
            k1: "trace w1 = trace ?w2 @ pollEvents flexvol k" and k2: "polls w1 = polls ?w2 + k" and
            k3: "r = None \<longrightarrow> (k = 0 \<and> status = ''on'') \<or>
                      (0 < k \<and> QuotaStatus env flexvol (polls w1 - 1) = ZapiPassed ''on'')" and
            k4: "0 < k \<and> QuotaStatus env flexvol (polls w1 - 1) = ZapiPassed ''corrupt'' \<longrightarrow>
                   r = Some (''error enabling quotas: quotas are corrupt on flexvol '' @ flexvol)"
            by blast
          have b: "polls w1 = polls w + 1 + k" using k2 po2 by simp
          have a: "trace w1 = trace w @ [EvQuotaStatus flexvol]
                   @ (if QuotaStatus env flexvol (polls w) = ZapiPassed ''off''
                      then [EvQuotaOn flexvol] else [])
                   @ pollEvents flexvol (polls w1 - polls w - 1)"
            using k1 tr2 b by simp
          have c: "r = None \<longrightarrow> QuotaStatus env flexvol (polls w1 - 1) = ZapiPassed ''on''"
            using k3 b passed(2) by (cases k) auto
          have d: "QuotaStatus env flexvol (polls w1 - 1) = ZapiPassed ''corrupt'' \<longrightarrow>
                   r = Some (''error enabling quotas: quotas are corrupt on flexvol '' @ flexvol)"
            using k4 b passed(2) notcorrupt by (cases k) auto
          from a b c d True show ?thesis by simp
        qed
      qed
    qed
  qed
  then show "polls w < polls w1"
    and "trace w1 = trace w @ [EvQuotaStatus flexvol]
        @ (if QuotaStatus env flexvol (polls w) = ZapiPassed ''off'' then [EvQuotaOn flexvol] else [])
        @ pollEvents flexvol (polls w1 - polls w - 1)"
    and "\<not> wait \<Longrightarrow> polls w1 = polls w + 1"
    and "wait \<and> r = None \<Longrightarrow> QuotaStatus env flexvol (polls w1 - 1) = ZapiPassed ''on''"
    and "QuotaStatus env flexvol (polls w1 - 1) = ZapiPassed ''corrupt'' \<Longrightarrow>
         r = Some (''error enabling quotas: quotas are corrupt on flexvol '' @ flexvol)"
    by simp_all
next
  fix r w1
  assume run: "disableQuotas fuel env flexvol wait w = Some (r, w1)"
  let ?w1 = "emit (EvQuotaStatus flexvol) (w\<lparr>polls := polls w + 1\<rparr>)"
  let ?off = "if \<exists>status. QuotaStatus env flexvol (polls w) = ZapiPassed status \<and>
                       status \<noteq> ''off'' \<and> status \<noteq> ''corrupt''
              then [EvQuotaOff flexvol] else []"
  have "trace w1 = trace w @ [EvQuotaStatus flexvol] @ ?off
          @ pollEvents flexvol (polls w1 - polls w - 1) \<and>
        (\<not> wait \<longrightarrow> polls w1 = polls w + 1)"
  proof (cases rule: getQuotaStatus_cases [of env flexvol w])
    case (failed err)
    with run have "w1 = ?w1" by (auto simp: disableQuotas_def)
    with failed(2) show ?thesis by simp
  next
    case (passed status)
    show ?thesis
    proof (cases "status = ''corrupt''")
      case True
      with run passed have "w1 = ?w1" by (auto simp: disableQuotas_def)
      with passed(2) True show ?thesis by simp
    next
      case notcorrupt: False
      let ?w2 = "if status \<noteq> ''off'' then emit (EvQuotaOff flexvol) ?w1 else ?w1"
      have tr2: "trace ?w2 = trace w @ [EvQuotaStatus flexvol] @ ?off"
        and po2: "polls ?w2 = polls w + 1"
        using passed(2) notcorrupt by auto
      show ?thesis
      proof (cases "status \<noteq> ''off'' \<and> GetError (QuotaOff env flexvol) \<noteq> None")
        case True
        with run passed notcorrupt have "w1 = ?w2"
          by (auto simp: disableQuotas_def)
        with tr2 po2 show ?thesis by simp
      next
        case False
        show ?thesis
        proof (cases wait)
          case nowait: False
          with run passed notcorrupt False have "w1 = ?w2"
            by (auto simp: disableQuotas_def split: if_splits)
          with tr2 po2 show ?thesis by simp
        next
          case True
          with run passed notcorrupt False
          have "waitQuotasOff fuel env flexvol status ?w2 = Some (r, w1)"
            by (auto simp: disableQuotas_def split: if_splits)
          from waitQuotasOff_run [OF this] obtain k where
            "trace w1 = trace ?w2 @ pollEvents flexvol k" and "polls w1 = polls ?w2 + k"
            by blast
          with tr2 po2 True show ?thesis by simp
        qed
      qed
    qed
  qed
  then show "trace w1 = trace w @ [EvQuotaStatus flexvol] @ ?off
          @ pollEvents flexvol (polls w1 - polls w - 1)"
    and "\<not> wait \<Longrightarrow> polls w1 = polls w + 1"
    by simp_all
next
  assume "\<exists>k\<le>fuel. settlesOn (QuotaStatus env flexvol (polls w + k))"
  then obtain k where k: "k \<le> fuel" and s: "settlesOn (QuotaStatus env flexvol (polls w + k))"
    by blast
  let ?w1 = "emit (EvQuotaStatus flexvol) (w\<lparr>polls := polls w + 1\<rparr>)"
  show "enableQuotas fuel env flexvol wait w \<noteq> None"
  proof (cases rule: getQuotaStatus_cases [of env flexvol w])
    case (failed err)
    then show ?thesis by (simp add: enableQuotas_def)
  next
    case (passed status)
    let ?w2 = "if status = ''off'' then emit (EvQuotaOn flexvol) ?w1 else ?w1"
    have po2: "polls ?w2 = polls w + 1" by simp
    have alt: "status = ''on'' \<or> status = ''corrupt'' \<or>
          (\<exists>j<fuel. settlesOn (QuotaStatus env flexvol (polls w + 1 + j)))"
    proof (cases k)
      case 0
      with s passed(2) show ?thesis by (auto simp: settlesOn_def)
    next
      case (Suc j)
      with k s have "j < fuel" and "settlesOn (QuotaStatus env flexvol (polls w + 1 + j))"
        by simp_all
      then show ?thesis by blast
    qed
    have "status = ''corrupt'' \<or> status = ''on'' \<or>
          (\<exists>j<fuel. settlesOn (QuotaStatus env flexvol (polls ?w2 + j)))"
      unfolding po2 using alt by blast
    then consider "status = ''corrupt''"
      | "status = ''on'' \<or> (\<exists>j<fuel. settlesOn (QuotaStatus env flexvol (polls ?w2 + j)))"
      by blast
    then show ?thesis
    proof cases
      case 1
      with passed show ?thesis by (simp add: enableQuotas_def)
    next
      case 2
      from waitQuotasOn_total [OF 2] passed show ?thesis
        by (auto simp: enableQuotas_def split: option.splits)
    qed
  qed
qed

lemma enable_run:
  "enableQuotas (Suc (Suc 0)) offAppliance demoFlexvol True emptyWorld =
     Some (None, emptyWorld\<lparr> trace := [EvQuotaStatus demoFlexvol, EvQuotaOn demoFlexvol,
                                         EvSleep 1, EvQuotaStatus demoFlexvol,
                                         EvSleep 1, EvQuotaStatus demoFlexvol],
                               polls := 3 \<rparr>)"
  by (simp add: enableQuotas_def getQuotaStatus_def offAppliance_def demoAppliance_def
        emptyWorld_def emit_def Let_def)

theorem enableQuotas_drives_to_on_witness:
  "enableQuotas (Suc (Suc 0)) offAppliance demoFlexvol True emptyWorld =
     Some (None, emptyWorld\<lparr> trace := [EvQuotaStatus demoFlexvol, EvQuotaOn demoFlexvol,
                                         EvSleep 1, EvQuotaStatus demoFlexvol,
                                         EvSleep 1, EvQuotaStatus demoFlexvol],
                               polls := 3 \<rparr>) \<and>
   QuotaStatus offAppliance demoFlexvol 0 = ZapiPassed ''off'' \<and>
   QuotaStatus offAppliance demoFlexvol 2 = ZapiPassed ''on'' \<and>
   settlesOn (QuotaStatus offAppliance demoFlexvol (0 + 2)) \<and>
   enableQuotas (Suc (Suc 0)) offAppliance demoFlexvol True emptyWorld \<noteq> None \<and>
   disableQuotas 0 offAppliance demoFlexvol False emptyWorld =
     Some (None, emptyWorld\<lparr> trace := [EvQuotaStatus demoFlexvol], polls := 1 \<rparr>)"
proof -
  let ?w1 = "emptyWorld\<lparr> trace := [EvQuotaStatus demoFlexvol, EvQuotaOn demoFlexvol,
                                   EvSleep 1, EvQuotaStatus demoFlexvol,
                                   EvSleep 1, EvQuotaStatus demoFlexvol],
                         polls := 3 \<rparr>"
  have off: "QuotaStatus offAppliance demoFlexvol 0 = ZapiPassed ''off''"
    by (simp add: offAppliance_def demoAppliance_def)
  have settle: "settlesOn (QuotaStatus offAppliance demoFlexvol (0 + 2))"
    by (simp add: offAppliance_def demoAppliance_def settlesOn_def)
  have dis: "disableQuotas 0 offAppliance demoFlexvol False emptyWorld =
     Some (None, emptyWorld\<lparr> trace := [EvQuotaStatus demoFlexvol], polls := 1 \<rparr>)"
    by (simp add: disableQuotas_def getQuotaStatus_def offAppliance_def demoAppliance_def
          emptyWorld_def emit_def Let_def)
  note inst = enableQuotas_drives_to_on [of "Suc (Suc 0)" offAppliance demoFlexvol True emptyWorld]
  from inst enable_run
  have "QuotaStatus offAppliance demoFlexvol (polls ?w1 - 1) = ZapiPassed ''on''"
    by blast
  then have on: "QuotaStatus offAppliance demoFlexvol 2 = ZapiPassed ''on''"
    by (simp add: emptyWorld_def)
  have "\<exists>k\<le>Suc (Suc 0). settlesOn (QuotaStatus offAppliance demoFlexvol (polls emptyWorld + k))"
    using settle by (intro exI [of _ 2]) (simp add: emptyWorld_def)
  with inst have "enableQuotas (Suc (Suc 0)) offAppliance demoFlexvol True emptyWorld \<noteq> None"
    by blast
  with enable_run off on settle dis show ?thesis by simp
qed

subsection \<open>Dropped errors of the quota steps\<close>

lemma RandomString_10:
  "RandomString env k 10 =
     map (\<lambda>i. alphanumerics ! (randomByte env k i mod 62)) [0, 1, 2, 3, 4, 5, 6, 7, 8, 9]"
proof -
  have "[0..<10] = [0, 1, 2, 3, 4, 5, 6, 7, 8, 9::nat]" by (simp add: upt_conv_Cons)
  then show ?thesis by (simp add: RandomString_def)
qed

lemma addQuota_fails:
  "fst (addQuotaForQtree quotaFailAppliance ''trident_beta'' demoFlexvol 1073741824 w) =
     Some ''error adding qtree quota: quota rule rejected''"
  by (simp add: addQuotaForQtree_def quotaFailAppliance_def demoAppliance_def Let_def)

lemma create_flexvol_found:
  "ensureFlexvolForQtree 0 quotaFailAppliance demoDriver ''aggr1'' ''none'' ''none'' False None w =
     Some ((demoFlexvol, None),
           emit (EvQtreeCount demoFlexvol)
             (emit (EvVolumeListByAttrs ''trident_qtree_pool_trident_'' ''aggr1'' ''none'' ''none''
                      False None) w))"
  by (simp add: ensureFlexvolForQtree_def getFlexvolForQtree_def quotaFailAppliance_def
        demoAppliance_def demoDriver_def demoFlexvol_def maxQtreesPerFlexvol_def Let_def)

lemma create_optimal_size:
  "getOptimalSizeForFlexvol quotaFailAppliance demoFlexvol 1073741824 w =
     (Inr 2254857830, emit (EvQuotaEntryList demoFlexvol) (emit (EvVolumeGet demoFlexvol) w))"
  by (simp add: getOptimalSizeForFlexvol_def getTotalHardDiskLimitQuota_def quotaFailAppliance_def
        demoAppliance_def ParseUint_def digitVal_def Let_def)

lemma create_run:
  "Create 0 quotaFailAppliance demoDriver ''trident_beta'' 1073741824 Map.empty emptyWorld =
     Some (None, emptyWorld\<lparr> trace := quotaFailTrace \<rparr>)"
proof -
  have opts: "GetV Map.empty ''aggregate'' (Aggregate demoDriver) = ''aggr1''"
    "GetV Map.empty ''spaceReserve'' (SpaceReserve demoDriver) = ''none''"
    "GetV Map.empty ''snapshotPolicy'' (SnapshotPolicy demoDriver) = ''none''"
    "GetV Map.empty ''snapshotDir'' (SnapshotDir demoDriver) = ''false''"
    "GetV Map.empty ''encryption'' (Encryption demoDriver) = ''false''"
    "GetV Map.empty ''unixPermissions'' (UnixPermissions demoDriver) = ''---rwxrwxrwx''"
    "GetV Map.empty ''exportPolicy'' (ExportPolicy demoDriver) = ''default''"
    "GetV Map.empty ''securityStyle'' (SecurityStyle demoDriver) = ''unix''"
    by (simp_all add: GetV_def demoDriver_def)
  have env: "QtreeExists quotaFailAppliance ''trident_beta'' ''trident_qtree_pool_trident_''
               = (False, [], None)"
    "MinimumVolumeSizeBytes quotaFailAppliance = 1048576"
    "ValidateEncryptionAttribute quotaFailAppliance ''false'' = Inr None"
    "SetVolumeSize quotaFailAppliance demoFlexvol ''2254857830'' = ZapiPassed ()"
    "QtreeCreate quotaFailAppliance ''trident_beta'' demoFlexvol ''---rwxrwxrwx'' ''default'' ''unix''
       = ZapiPassed ()"
    "flexvolNamePrefix demoDriver = ''trident_qtree_pool_trident_''"
    by (simp_all add: quotaFailAppliance_def demoAppliance_def demoDriver_def)
  have quota: "addQuotaForQtree quotaFailAppliance ''trident_beta'' demoFlexvol 1073741824 w =
      (Some ''error adding qtree quota: quota rule rejected'',
       emit (EvQuotaSetEntry [] demoFlexvol (''/vol/'' @ demoFlexvol @ ''/trident_beta'') ''tree''
               ''1048576'') w)" for w
    by (simp add: addQuotaForQtree_def FormatUint_eval quotaFailAppliance_def demoAppliance_def Let_def)
  have pb: "ParseBool ''false'' = Some False" by (simp add: ParseBool_def)
  show ?thesis
    unfolding Create_def Let_def opts
    by (simp add: env pb create_flexvol_found create_optimal_size FormatUint_eval quota
          maxQtreeNameLength_def)
       (simp add: emptyWorld_def emit_def quotaFailTrace_def)
qed

text \<open>
  C1 fails on the code.  \<^verbatim>\<open>Create\<close> drops the error of \<^verbatim>\<open>addQuotaForQtree\<close>: on an
  appliance that rejects the quota entry, \<^verbatim>\<open>Create(trident_beta, 1 GiB)\<close> submits the entry
  with target \<^verbatim>\<open>/vol/F/trident_beta\<close> and disk limit 1048576 KiB as its last call and
  returns success, but the Flexvol is not in the Quota Resize Set.
\<close>

theorem Create_success_without_resize_flag:
  "Create 0 quotaFailAppliance demoDriver ''trident_beta'' 1073741824 Map.empty emptyWorld =
     Some (None, emptyWorld\<lparr> trace := quotaFailTrace \<rparr>) \<and>
   last quotaFailTrace =
     EvQuotaSetEntry [] demoFlexvol (''/vol/'' @ demoFlexvol @ ''/trident_beta'') ''tree'' ''1048576'' \<and>
   quotaResizeMap (emptyWorld\<lparr> trace := quotaFailTrace \<rparr>) demoFlexvol = None"
  by (simp add: create_run) (simp add: quotaFailTrace_def emptyWorld_def)

text \<open>
  C2 fails on the code.  On the same appliance the quota installation step fails after the
  qtree has been created, and \<^verbatim>\<open>Create\<close> returns nil instead of the error
  \<^verbatim>\<open>volume creation failed\<close>.
\<close>

theorem Create_ignores_quota_failure:
  "fst (addQuotaForQtree quotaFailAppliance ''trident_beta'' demoFlexvol 1073741824 emptyWorld) =
     Some ''error adding qtree quota: quota rule rejected'' \<and>
   map_option fst
     (Create 0 quotaFailAppliance demoDriver ''trident_beta'' 1073741824 Map.empty emptyWorld) =
     Some None"
  by (simp add: create_run addQuota_fails)

lemma corrupt_disable:
  "disableQuotas 0 corruptAppliance newFlexvol True w =
     Some (Some (''error disabling quotas: quotas are corrupt on Flexvol '' @ newFlexvol),
           emit (EvQuotaStatus newFlexvol) (w\<lparr>polls := polls w + 1\<rparr>))"
  by (simp add: disableQuotas_def getQuotaStatus_def corruptAppliance_def demoAppliance_def Let_def)

lemma corrupt_enable:
  "enableQuotas 0 corruptAppliance newFlexvol True w =
     Some (Some (''error enabling quotas: quotas are corrupt on flexvol '' @ newFlexvol),
           emit (EvQuotaStatus newFlexvol) (w\<lparr>polls := polls w + 1\<rparr>))"
  by (simp add: enableQuotas_def getQuotaStatus_def corruptAppliance_def demoAppliance_def Let_def)

lemma addDefaultQuotaForFlexvol_drops_errors:
  assumes "GetError (QuotaSetEntry env [] flexvol [] ''tree'' ''-'') = None"
      and "disableQuotas fuel env flexvol True (emit (EvQuotaSetEntry [] flexvol [] ''tree'' ''-'') w)
             = Some (r1, w2)"
      and "enableQuotas fuel env flexvol True w2 = Some (r2, w3)"
  shows "addDefaultQuotaForFlexvol fuel env flexvol w = Some (None, w3)"
  using assms by (simp add: addDefaultQuotaForFlexvol_def Let_def)

lemma createFlexvolForQtree_passes:
  assumes "GetError (VolumeCreate env flexvol aggregate ''1g'' spaceReserve snapshotPolicy ''0700''
                       (flexvolExportPolicy d) ''unix'' encrypt) = None"
      and "GetError (VolumeDisableSnapshotDirectoryAccess env flexvol) = None"
      and "GetError (VolumeMount env flexvol (''/'' @ flexvol)) = None"
      and "flexvolNamePrefix d @ RandomString env (draws w) 10 = flexvol"
      and "\<forall>w1. \<exists>w2. addDefaultQuotaForFlexvol fuel env flexvol w1 = Some (None, w2)"
  shows "map_option fst
           (createFlexvolForQtree fuel env d aggregate spaceReserve snapshotPolicy enableSnapshotDir
              encrypt w) = Some (flexvol, None)"
proof -
  let ?w0 = "w\<lparr>draws := draws w + 1\<rparr>"
  let ?w1 = "emit (EvVolumeCreate flexvol aggregate ''1g'' spaceReserve snapshotPolicy ''0700''
                     (flexvolExportPolicy d) ''unix'' encrypt) ?w0"
  let ?w2 = "if \<not> enableSnapshotDir
             then emit (EvVolumeDisableSnapshotDirectoryAccess flexvol) ?w1 else ?w1"
  let ?w3 = "emit EvUpdateLoadSharingMirrors (emit (EvVolumeMount flexvol (''/'' @ flexvol)) ?w2)"
  from assms(5) obtain w4 where
    "addDefaultQuotaForFlexvol fuel env flexvol ?w3 = Some (None, w4)" by blast
  with assms(1-4) show ?thesis
    by (cases enableSnapshotDir) (simp_all add: createFlexvolForQtree_def Let_def)
qed

lemma new_flexvol_name:
  "flexvolNamePrefix demoDriver @ RandomString corruptAppliance 0 10 = newFlexvol"
  "flexvolNamePrefix demoDriver @ RandomString pollCorruptAppliance 0 10 = newFlexvol"
  by (simp_all add: RandomString_10 alphanumerics_def corruptAppliance_def pollCorruptAppliance_def
        demoAppliance_def demoDriver_def newFlexvol_def)

lemma poll_corrupt_disable:
  "map_option fst (disableQuotas (Suc 0) pollCorruptAppliance newFlexvol True emptyWorld) =
     Some (Some (''error disabling quotas: quotas are corrupt on flexvol '' @ newFlexvol))"
  by (simp add: disableQuotas_def getQuotaStatus_def pollCorruptAppliance_def demoAppliance_def
        emptyWorld_def Let_def)

text \<open>
  C3 fails on the code.  \<^verbatim>\<open>addDefaultQuotaForFlexvol\<close> drops the errors of
  \<^verbatim>\<open>disableQuotas\<close> and \<^verbatim>\<open>enableQuotas\<close>.  With a quota status that is \<^verbatim>\<open>corrupt\<close>
  on the initial read, or \<^verbatim>\<open>on\<close> at first and \<^verbatim>\<open>corrupt\<close> while polling,
  \<^verbatim>\<open>disableQuotas\<close> returns the error that names the Flexvol, and the creation of the
  Flexvol nevertheless returns the Flexvol's name and a nil error.
\<close>

theorem createFlexvolForQtree_ignores_corrupt_quotas:
  "map_option fst (disableQuotas 0 corruptAppliance newFlexvol True emptyWorld) =
     Some (Some (''error disabling quotas: quotas are corrupt on Flexvol '' @ newFlexvol)) \<and>
   map_option fst
     (createFlexvolForQtree 0 corruptAppliance demoDriver ''aggr1'' ''none'' ''none'' False None
        emptyWorld) = Some (newFlexvol, None) \<and>
   map_option fst (disableQuotas (Suc 0) pollCorruptAppliance newFlexvol True emptyWorld) =
     Some (Some (''error disabling quotas: quotas are corrupt on flexvol '' @ newFlexvol)) \<and>
   map_option fst
     (createFlexvolForQtree (Suc 0) pollCorruptAppliance demoDriver ''aggr1'' ''none'' ''none'' False
        None emptyWorld) = Some (newFlexvol, None)"
proof -
  have entry: "GetError (QuotaSetEntry corruptAppliance [] newFlexvol [] ''tree'' ''-'') = None"
    "GetError (QuotaSetEntry pollCorruptAppliance [] newFlexvol [] ''tree'' ''-'') = None"
    by (simp_all add: corruptAppliance_def pollCorruptAppliance_def demoAppliance_def)
  have env: "GetError (VolumeCreate corruptAppliance a b c d e f g h i) = None"
    "GetError (VolumeDisableSnapshotDirectoryAccess corruptAppliance a) = None"
    "GetError (VolumeMount corruptAppliance a b) = None"
    "GetError (VolumeCreate pollCorruptAppliance a b c d e f g h i) = None"
    "GetError (VolumeDisableSnapshotDirectoryAccess pollCorruptAppliance a) = None"
    "GetError (VolumeMount pollCorruptAppliance a b) = None"
    for a b c d e f g h i
    by (simp_all add: corruptAppliance_def pollCorruptAppliance_def demoAppliance_def)
  have name: "flexvolNamePrefix demoDriver @ RandomString corruptAppliance (draws emptyWorld) 10
                = newFlexvol"
    "flexvolNamePrefix demoDriver @ RandomString pollCorruptAppliance (draws emptyWorld) 10
                = newFlexvol"
    by (simp_all add: new_flexvol_name emptyWorld_def)
  have q1: "\<forall>w1. \<exists>w2. addDefaultQuotaForFlexvol 0 corruptAppliance newFlexvol w1 = Some (None, w2)"
    using addDefaultQuotaForFlexvol_drops_errors [OF entry(1) corrupt_disable corrupt_enable]
    by blast
  have c1: "map_option fst
     (createFlexvolForQtree 0 corruptAppliance demoDriver ''aggr1'' ''none'' ''none'' False None
        emptyWorld) = Some (newFlexvol, None)"
    by (rule createFlexvolForQtree_passes [OF env(1) env(2) env(3) name(1) q1])
  have dis: "\<exists>r w2. disableQuotas (Suc 0) pollCorruptAppliance newFlexvol True w = Some (r, w2)"
    for w
    by (simp add: disableQuotas_def getQuotaStatus_def pollCorruptAppliance_def demoAppliance_def
          Let_def)
  have en: "\<exists>r w2. enableQuotas (Suc 0) pollCorruptAppliance newFlexvol True w = Some (r, w2)"
    for w
    by (simp add: enableQuotas_def getQuotaStatus_def pollCorruptAppliance_def demoAppliance_def
          Let_def)
  have q2: "\<forall>w1. \<exists>w2. addDefaultQuotaForFlexvol (Suc 0) pollCorruptAppliance newFlexvol w1
                          = Some (None, w2)"
  proof
    fix w1
    from dis obtain r1 w2 where
      d: "disableQuotas (Suc 0) pollCorruptAppliance newFlexvol True
            (emit (EvQuotaSetEntry [] newFlexvol [] ''tree'' ''-'') w1) = Some (r1, w2)"
      by blast
    from en obtain r2 w3 where
      e: "enableQuotas (Suc 0) pollCorruptAppliance newFlexvol True w2 = Some (r2, w3)"
      by blast
    from addDefaultQuotaForFlexvol_drops_errors [OF entry(2) d e]
    show "\<exists>w2. addDefaultQuotaForFlexvol (Suc 0) pollCorruptAppliance newFlexvol w1
                 = Some (None, w2)" by blast
  qed
  have c2: "map_option fst
     (createFlexvolForQtree (Suc 0) pollCorruptAppliance demoDriver ''aggr1'' ''none'' ''none'' False
        None emptyWorld) = Some (newFlexvol, None)"
    by (rule createFlexvolForQtree_passes [OF env(4) env(5) env(6) name(2) q2])
  from c1 c2 show ?thesis by (simp add: corrupt_disable poll_corrupt_disable)
qed

end
